theory Spec2Isabelle
  imports Main
begin

section \<open>Values, tables and the Python built-ins the program calls\<close>

text \<open>
  A cell of a pandas table is either a value or the missing value \<open>NaN\<close>, which
  \<open>read_csv\<close> produces for an empty field. The element-wise comparison
  \<open>data_df['id'] == selected_id\<close> is false whenever a side is \<open>NaN\<close>.
\<close>

datatype 'v cell = Val 'v | NaN

definition cell_eq :: "'v cell \<Rightarrow> 'v cell \<Rightarrow> bool" where
  "cell_eq a b = (a = b \<and> a \<noteq> NaN)"

text \<open>
  A DataFrame: its column names and its rows in file order. A row is read only at the
  names in \<open>columns\<close>; attribute access at any other name raises \<open>AttributeError\<close>.
  The dtype coercion that \<open>iloc[0]\<close> applies to a row is not modelled.
\<close>

record 'v dataframe =
  columns :: "string list"
  rows :: "(string \<Rightarrow> 'v cell) list"

type_synonym 'v series = "string list \<times> (string \<Rightarrow> 'v cell)"

datatype exn =
    AttributeError string
  | KeyError string
  | TypeError
  | EOFError
  | KeyboardInterrupt
  | SystemExit int

text \<open>
  The built-ins of Python that the program applies to cells and numbers. They are
  parameters of the model: \<open>py_float\<close> is \<open>float(x)\<close> (\<open>None\<close> when it
  raises), \<open>py_add\<close> is \<open>+\<close> on numbers, \<open>py_zero\<close> the integer \<open>0\<close> the
  accumulator starts from, \<open>py_format_2f\<close> the format specification \<open>.2f\<close>,
  \<open>py_str\<close> is \<open>str\<close> and the default format of an f-string field,
  \<open>py_sorted\<close> is \<open>sorted\<close> (\<open>None\<close> when a comparison raises \<open>TypeError\<close>) and
  \<open>py_int\<close> is \<open>int(s)\<close> on a line of input (\<open>None\<close> for \<open>ValueError\<close>).
\<close>

record ('v, 'f) builtins =
  py_str :: "'v cell \<Rightarrow> string"
  py_float :: "'v cell \<Rightarrow> 'f option"
  py_add :: "'f \<Rightarrow> 'f \<Rightarrow> 'f"
  py_zero :: "'f"
  py_format_2f :: "'f \<Rightarrow> string"
  py_sorted :: "'v cell list \<Rightarrow> 'v cell list option"
  py_int :: "string \<Rightarrow> int option"

text \<open>The decimal digits of a natural number: what \<open>{idx}\<close> prints for a loop index.\<close>

fun str_nat :: "nat \<Rightarrow> string" where
  "str_nat n =
     (if n < 10 then [''0123456789'' ! n]
      else str_nat (n div 10) @ [''0123456789'' ! (n mod 10)])"

section \<open>\<open>string.Template.safe_substitute\<close>\<close>

text \<open>
  The pattern of \<open>string.Template\<close>: after the delimiter \<open>$\<close> come, tried in this
  order, a second \<open>$\<close> (escaped), an identifier \<open>[_a-z][_a-z0-9]*\<close> matched
  greedily and without regard to case on ASCII (named), an identifier in braces
  (braced), or nothing (invalid, which matches the \<open>$\<close> alone).
\<close>

definition is_id_start :: "char \<Rightarrow> bool" where
  "is_id_start c =
     (let n = (of_char c :: nat)
      in n = 95 \<or> (97 \<le> n \<and> n \<le> 122) \<or> (65 \<le> n \<and> n \<le> 90))"

definition is_id_char :: "char \<Rightarrow> bool" where
  "is_id_char c =
     (let n = (of_char c :: nat) in is_id_start c \<or> (48 \<le> n \<and> n \<le> 57))"

datatype token = Text char | Escaped | Named string | Braced string | Invalid

text \<open>
  \<open>braced_id ds\<close> matches \<open>identifier}\<close> at the start of \<open>ds\<close>, the text after
  \<open>${\<close>, and returns the identifier and the text after the closing brace.
\<close>

definition braced_id :: "string \<Rightarrow> (string \<times> string) option" where
  "braced_id ds =
     (case takeWhile is_id_char ds of
        [] \<Rightarrow> None
      | a # as \<Rightarrow>
          if is_id_start a then
            (case dropWhile is_id_char ds of
               [] \<Rightarrow> None
             | r # rs \<Rightarrow> if r = CHR ''}'' then Some (a # as, rs) else None)
          else None)"

lemma braced_id_shorter: "braced_id ds = Some (n, rs) \<Longrightarrow> length rs < length ds"
proof -
  assume h: "braced_id ds = Some (n, rs)"
  then obtain r where "dropWhile is_id_char ds = r # rs"
    by (auto simp: braced_id_def split: list.splits if_splits)
  then have "Suc (length rs) = length (dropWhile is_id_char ds)"
    by simp
  also have "\<dots> \<le> length ds"
    by (rule length_dropWhile_le)
  finally show ?thesis by simp
qed

lemma dropWhile_shorter:
  "length (dropWhile P xs) < Suc (length xs)" "length (dropWhile P xs) < Suc (Suc (length xs))"
  using length_dropWhile_le [of P xs] by simp_all

function tokenize :: "string \<Rightarrow> token list" where
  "tokenize [] = []"
| "tokenize (c # cs) =
     (if c \<noteq> CHR ''$'' then Text c # tokenize cs
      else (case cs of
          [] \<Rightarrow> [Invalid]
        | d # ds \<Rightarrow>
            if d = CHR ''$'' then Escaped # tokenize ds
            else if is_id_start d then
              Named (takeWhile is_id_char cs) # tokenize (dropWhile is_id_char cs)
            else if d = CHR ''{'' then
              (case braced_id ds of
                 Some (n, rs) \<Rightarrow> Braced n # tokenize rs
               | None \<Rightarrow> Invalid # tokenize cs)
            else Invalid # tokenize cs))"
  by pat_completeness auto
termination
proof (relation "measure length")
  fix c :: char and cs :: string and d :: char and ds x2 x y
  assume "cs = d # ds" "braced_id ds = Some x2" "(x, y) = x2"
  then have "length y < length ds"
    using braced_id_shorter [of ds x y] by simp
  then show "(y, c # cs) \<in> measure length"
    using \<open>cs = d # ds\<close> by simp
qed (auto simp: dropWhile_shorter)

text \<open>The text a token was read from (\<open>mo.group()\<close>).\<close>

fun source :: "token \<Rightarrow> string" where
  "source (Text c) = [c]"
| "source Escaped = ''$$''"
| "source (Named n) = CHR ''$'' # n"
| "source (Braced n) = ''${'' @ n @ ''}''"
| "source Invalid = ''$''"

text \<open>
  The helper \<open>convert\<close> of \<open>safe_substitute\<close>: a placeholder whose name is a key
  is replaced by the value, one whose name is missing by its own text; \<open>$$\<close> gives
  \<open>$\<close>; an ill-formed \<open>$\<close> stays.
\<close>

fun convert :: "(string \<rightharpoonup> string) \<Rightarrow> token \<Rightarrow> string" where
  "convert mapping (Text c) = [c]"
| "convert mapping (Named n) =
     (case mapping n of Some v \<Rightarrow> v | None \<Rightarrow> source (Named n))"
| "convert mapping (Braced n) =
     (case mapping n of Some v \<Rightarrow> v | None \<Rightarrow> source (Braced n))"
| "convert mapping Escaped = ''$''"
| "convert mapping Invalid = source Invalid"

definition safe_substitute :: "(string \<rightharpoonup> string) \<Rightarrow> string \<Rightarrow> string" where
  "safe_substitute mapping template = concat (map (convert mapping) (tokenize template))"

section \<open>The template renderer\<close>

text \<open>
  A render returns the HTML, or prints a message and returns \<open>None\<close> (\<open>Failed\<close>
  with the message's condition), or raises.
\<close>

datatype failure = NoActData | NoDataForId | UnknownTemplateType

datatype render_result = Html string | Failed failure | Raised exn

text \<open>
  Reading the attributes \<open>names\<close> of a row in this order: the first one that is not a
  column raises \<open>AttributeError\<close>.
\<close>

definition missing_attr :: "string list \<Rightarrow> string list \<Rightarrow> string option" where
  "missing_attr cols names =
     (case filter (\<lambda>n. n \<notin> set cols) names of [] \<Rightarrow> None | n # _ \<Rightarrow> Some n)"

text \<open>
  The attributes each strategy reads, in the order it reads them: of every row in the
  loop of the act, of the first row for the act's header, and of the row of a
  certificate.
\<close>

definition act_row_fields :: "string list" where
  "act_row_fields = [''work_name'', ''quantity'', ''unit'', ''unit_price'', ''total'']"

definition act_header_fields :: "string list" where
  "act_header_fields =
     [''act_number'', ''act_date'', ''contract_number'', ''object_address'', ''client'',
      ''contractor'']"

definition certificate_fields :: "string list" where
  "certificate_fields = [''student_name'', ''course_name'', ''cert_date'']"

text \<open>The f-string that makes one table row of the act.\<close>

definition row_fragment ::
  "('v, 'f) builtins \<Rightarrow> nat \<Rightarrow> (string \<Rightarrow> 'v cell) \<Rightarrow> string" where
  "row_fragment B idx row =
     ''\<newline>      <tr>\<newline>        <td>'' @ str_nat idx @
     ''</td>\<newline>        <td>'' @ py_str B (row ''work_name'') @
     ''</td>\<newline>        <td>'' @ py_str B (row ''quantity'') @
     ''</td>\<newline>        <td>'' @ py_str B (row ''unit'') @
     ''</td>\<newline>        <td>'' @ py_str B (row ''unit_price'') @
     ''</td>\<newline>        <td>'' @ py_str B (row ''total'') @
     ''</td>\<newline>      </tr>''"

text \<open>
  The \<open>try\<close> block of the loop: \<open>float(row.total)\<close> added to the running total; any
  exception (no column \<open>total\<close>, or \<open>float\<close> raising) leaves the total as it was.
\<close>

definition add_total ::
  "('v, 'f) builtins \<Rightarrow> string list \<Rightarrow> (string \<Rightarrow> 'v cell) \<Rightarrow> 'f \<Rightarrow> 'f" where
  "add_total B cols row total_amount =
     (if ''total'' \<notin> set cols then total_amount
      else (case py_float B (row ''total'') of
          None \<Rightarrow> total_amount
        | Some total_f \<Rightarrow> py_add B total_amount total_f))"

text \<open>
  The loop \<open>for idx, row in enumerate(positions_df.itertuples(), 1)\<close>, with the index,
  the fragment built so far and the running total as accumulators.
\<close>

fun act_loop ::
  "('v, 'f) builtins \<Rightarrow> string list \<Rightarrow> (string \<Rightarrow> 'v cell) list \<Rightarrow> nat \<Rightarrow> string \<Rightarrow> 'f
     \<Rightarrow> exn + (string \<times> 'f)" where
  "act_loop B cols [] idx positions_rows total_amount = Inr (positions_rows, total_amount)"
| "act_loop B cols (row # rest) idx positions_rows total_amount =
     (let total_amount' = add_total B cols row total_amount
      in case missing_attr cols act_row_fields of
           Some n \<Rightarrow> Inl (AttributeError n)
         | None \<Rightarrow>
             act_loop B cols rest (idx + 1) (positions_rows @ row_fragment B idx row)
               total_amount')"

text \<open>The keyword arguments of \<open>safe_substitute\<close> in the act.\<close>

definition act_values ::
  "('v, 'f) builtins \<Rightarrow> (string \<Rightarrow> 'v cell) \<Rightarrow> string \<Rightarrow> 'f \<Rightarrow> (string \<rightharpoonup> string)" where
  "act_values B first_row positions_rows total_amount =
     [''act_number'' \<mapsto> py_str B (first_row ''act_number''),
      ''act_date'' \<mapsto> py_str B (first_row ''act_date''),
      ''contract_number'' \<mapsto> py_str B (first_row ''contract_number''),
      ''object_address'' \<mapsto> py_str B (first_row ''object_address''),
      ''positions_rows'' \<mapsto> positions_rows,
      ''total_amount'' \<mapsto> py_format_2f B total_amount,
      ''client'' \<mapsto> py_str B (first_row ''client''),
      ''contractor'' \<mapsto> py_str B (first_row ''contractor'')]"

definition render_act_template ::
  "('v, 'f) builtins \<Rightarrow> string \<Rightarrow> 'v dataframe \<Rightarrow> render_result" where
  "render_act_template B template_html positions_df =
     (if length (rows positions_df) = 0 then Failed NoActData
      else
        let first_row = rows positions_df ! 0
        in case act_loop B (columns positions_df) (rows positions_df) 1 [] (py_zero B) of
             Inl e \<Rightarrow> Raised e
           | Inr (positions_rows, total_amount) \<Rightarrow>
               (case missing_attr (columns positions_df) act_header_fields of
                  Some n \<Rightarrow> Raised (AttributeError n)
                | None \<Rightarrow>
                    Html (safe_substitute
                      (act_values B first_row positions_rows total_amount) template_html)))"

text \<open>The keyword arguments of \<open>safe_substitute\<close> in the certificate.\<close>

definition certificate_values ::
  "('v, 'f) builtins \<Rightarrow> (string \<Rightarrow> 'v cell) \<Rightarrow> (string \<rightharpoonup> string)" where
  "certificate_values B data_row =
     [''student_name'' \<mapsto> py_str B (data_row ''student_name''),
      ''course_name'' \<mapsto> py_str B (data_row ''course_name''),
      ''cert_date'' \<mapsto> py_str B (data_row ''cert_date'')]"

definition render_certificate_template ::
  "('v, 'f) builtins \<Rightarrow> string \<Rightarrow> 'v series \<Rightarrow> render_result" where
  "render_certificate_template B template_html data_row =
     (case missing_attr (fst data_row) certificate_fields of
        Some n \<Rightarrow> Raised (AttributeError n)
      | None \<Rightarrow> Html (safe_substitute (certificate_values B (snd data_row)) template_html))"

text \<open>
  \<open>data_df[data_df['id'] == selected_id]\<close>: the rows whose id compares equal to the
  requested one, in table order. Without a column \<open>id\<close> the lookup
  \<open>data_df['id']\<close> raises \<open>KeyError\<close>, which \<open>render_template\<close> tests first.
\<close>

definition filter_id :: "'v dataframe \<Rightarrow> 'v cell \<Rightarrow> (string \<Rightarrow> 'v cell) list" where
  "filter_id data_df selected_id = filter (\<lambda>r. cell_eq (r ''id'') selected_id) (rows data_df)"

definition render_template ::
  "('v, 'f) builtins \<Rightarrow> string \<Rightarrow> string \<Rightarrow> 'v dataframe \<Rightarrow> 'v cell \<Rightarrow> render_result" where
  "render_template B template_name template_html data_df selected_id =
     (if ''id'' \<notin> set (columns data_df) then Raised (KeyError ''id'')
      else
        let filtered_df = data_df\<lparr>rows := filter_id data_df selected_id\<rparr>
        in if length (rows filtered_df) = 0 then Failed NoDataForId
           else if template_name = ''act'' then render_act_template B template_html filtered_df
           else if template_name = ''certificate'' then
             render_certificate_template B template_html
               (columns filtered_df, rows filtered_df ! 0)
           else Failed UnknownTemplateType)"

section \<open>The PDF emitter\<close>

text \<open>
  The files of the output directory, by path. The two libraries are parameters:
  \<open>write_pdf\<close> is WeasyPrint's \<open>HTML(string=html).write_pdf(path)\<close>, which either
  writes the document or raises, leaving at the path nothing or what it had written;
  \<open>CreatePDF\<close> is \<open>pisa.CreatePDF\<close>, which writes bytes to the open file and returns
  the error count \<open>pdf.err\<close>, or raises after writing some bytes; \<open>can_open\<close> says
  whether \<open>open(output_path, 'wb')\<close> succeeds. The libraries raise subclasses of
  \<open>Exception\<close> only.
\<close>

type_synonym files = "string \<rightharpoonup> string"

datatype backend_kind = WeasyPrint | Xhtml2pdf | NoBackend

datatype weasy_result = Written string | WriteRaised "string option"

datatype pisa_result = PisaStatus string nat | PisaRaised string

record emitter =
  kind :: backend_kind
  write_pdf :: "string \<Rightarrow> string \<Rightarrow> weasy_result"
  CreatePDF :: "string \<Rightarrow> pisa_result"
  can_open :: "string \<Rightarrow> bool"

definition generate_pdf :: "emitter \<Rightarrow> string \<Rightarrow> string \<Rightarrow> files \<Rightarrow> bool \<times> files" where
  "generate_pdf E html_content output_path fs =
     (case kind E of
        WeasyPrint \<Rightarrow>
          (case write_pdf E html_content output_path of
             Written pdf \<Rightarrow> (True, fs(output_path \<mapsto> pdf))
           | WriteRaised None \<Rightarrow> (False, fs)
           | WriteRaised (Some part) \<Rightarrow> (False, fs(output_path \<mapsto> part)))
      | Xhtml2pdf \<Rightarrow>
          if \<not> can_open E output_path then (False, fs)
          else (case CreatePDF E html_content of
              PisaStatus pdf err \<Rightarrow> (err = 0, fs(output_path \<mapsto> pdf))
            | PisaRaised part \<Rightarrow> (False, fs(output_path \<mapsto> part)))
      | NoBackend \<Rightarrow> (False, fs))"

section \<open>The interactive controller\<close>

text \<open>
  Standard input is a list of events: a line, or an interrupt while \<open>input\<close> waits.
  At the end of the list \<open>input\<close> raises \<open>EOFError\<close>.
\<close>

datatype event = Line string | CtrlC

fun get_choice ::
  "('v, 'f) builtins \<Rightarrow> nat \<Rightarrow> event list \<Rightarrow> (exn + nat) \<times> event list" where
  "get_choice B max_value [] = (Inl EOFError, [])"
| "get_choice B max_value (CtrlC # es) = (Inl (SystemExit 0), es)"
| "get_choice B max_value (Line choice # es) =
     (case py_int B choice of
        None \<Rightarrow> get_choice B max_value es
      | Some choice_num \<Rightarrow>
          if 1 \<le> choice_num \<and> choice_num \<le> int max_value then (Inr (nat choice_num), es)
          else get_choice B max_value es)"

text \<open>\<open>Series.unique()\<close>: the distinct values in order of first appearance.\<close>

definition unique :: "'a list \<Rightarrow> 'a list" where
  "unique xs = rev (remdups (rev xs))"

text \<open>\<open>sorted(data_df['id'].unique())\<close>.\<close>

definition unique_ids :: "('v, 'f) builtins \<Rightarrow> 'v dataframe \<Rightarrow> exn + 'v cell list" where
  "unique_ids B data_df =
     (if ''id'' \<notin> set (columns data_df) then Inl (KeyError ''id'')
      else (case py_sorted B (unique (map (\<lambda>r. r ''id'') (rows data_df))) of
          None \<Rightarrow> Inl TypeError
        | Some ids \<Rightarrow> Inr ids))"

text \<open>
  \<open>OUTPUT_DIR / f"{selected_template.stem}_{selected_csv.stem}_id{selected_id}.pdf"\<close>;
  the normalisation of the joined path by \<open>pathlib\<close> is not modelled.
\<close>

definition output_filename :: "('v, 'f) builtins \<Rightarrow> string \<Rightarrow> string \<Rightarrow> 'v cell \<Rightarrow> string" where
  "output_filename B template_stem csv_stem selected_id =
     template_stem @ ''_'' @ csv_stem @ ''_id'' @ py_str B selected_id @ ''.pdf''"

definition output_path :: "string \<Rightarrow> string" where
  "output_path filename = ''output/'' @ filename"

text \<open>
  What a run leaves: how \<open>main\<close> ended (\<open>None\<close>: it returned; \<open>Some e\<close>: \<open>e\<close>
  propagated out of it), the output files, the lists \<open>created_files\<close> and \<open>errors\<close>
  of batch mode, whether the final summary was printed, and the identifiers that were
  passed to \<open>render_template\<close>, in order of the calls.
\<close>

record 'v run =
  outcome :: "exn option"
  out_files :: files
  created_files :: "string list"
  errors :: "string list"
  summary_printed :: bool
  rendered :: "'v cell list"

text \<open>The loop of batch mode over \<open>unique_ids\<close>; an exception of a render leaves it.\<close>

fun batch_loop ::
  "('v, 'f) builtins \<Rightarrow> emitter \<Rightarrow> string \<Rightarrow> string \<Rightarrow> string \<Rightarrow> 'v dataframe \<Rightarrow>
     'v cell list \<Rightarrow> 'v run \<Rightarrow> 'v run" where
  "batch_loop B E template_stem template_html csv_stem data_df [] st = st"
| "batch_loop B E template_stem template_html csv_stem data_df (selected_id # ids) st =
     (let st1 = st\<lparr>rendered := rendered st @ [selected_id]\<rparr>
      in case render_template B template_stem template_html data_df selected_id of
           Raised e \<Rightarrow> st1\<lparr>outcome := Some e\<rparr>
         | Failed _ \<Rightarrow>
             batch_loop B E template_stem template_html csv_stem data_df ids
               (st1\<lparr>errors := errors st1 @ [''ID '' @ py_str B selected_id]\<rparr>)
         | Html rendered_html \<Rightarrow>
             (let filename = output_filename B template_stem csv_stem selected_id;
                  (ok, fs) = generate_pdf E rendered_html (output_path filename) (out_files st1)
              in if ok then
                   batch_loop B E template_stem template_html csv_stem data_df ids
                     (st1\<lparr>out_files := fs, created_files := created_files st1 @ [filename]\<rparr>)
                 else
                   batch_loop B E template_stem template_html csv_stem data_df ids
                     (st1\<lparr>out_files := fs,
                          errors := errors st1 @ [''ID '' @ py_str B selected_id]\<rparr>)))"

definition batch_mode ::
  "('v, 'f) builtins \<Rightarrow> emitter \<Rightarrow> string \<Rightarrow> string \<Rightarrow> string \<Rightarrow> 'v dataframe \<Rightarrow>
     'v cell list \<Rightarrow> files \<Rightarrow> 'v run" where
  "batch_mode B E template_stem template_html csv_stem data_df ids fs =
     (let st = batch_loop B E template_stem template_html csv_stem data_df ids
                 \<lparr>outcome = None, out_files = fs, created_files = [], errors = [],
                  summary_printed = False, rendered = []\<rparr>
      in if outcome st = None then st\<lparr>summary_printed := True\<rparr> else st)"

definition single_mode ::
  "('v, 'f) builtins \<Rightarrow> emitter \<Rightarrow> string \<Rightarrow> string \<Rightarrow> string \<Rightarrow> 'v dataframe \<Rightarrow>
     'v cell list \<Rightarrow> event list \<Rightarrow> files \<Rightarrow> 'v run" where
  "single_mode B E template_stem template_html csv_stem data_df ids inp fs =
     (let st = \<lparr>outcome = None, out_files = fs, created_files = [], errors = [],
                summary_printed = False, rendered = []\<rparr>
      in case fst (get_choice B (length ids) inp) of
           Inl e \<Rightarrow> st\<lparr>outcome := Some e\<rparr>
         | Inr id_choice \<Rightarrow>
             (let selected_id = ids ! (id_choice - 1);
                  st1 = st\<lparr>rendered := [selected_id]\<rparr>
              in case render_template B template_stem template_html data_df selected_id of
                   Raised e \<Rightarrow> st1\<lparr>outcome := Some e\<rparr>
                 | Failed _ \<Rightarrow> st1
                 | Html rendered_html \<Rightarrow>
                     (let filename = output_filename B template_stem csv_stem selected_id;
                          (ok, fs') = generate_pdf E rendered_html (output_path filename) fs
                      in st1\<lparr>out_files := fs'\<rparr>)))"

text \<open>
  What \<open>main\<close> reads: the templates and data files found by \<open>glob\<close>, each with its
  stem and what reading it gives (\<open>None\<close> when \<open>read_html_template\<close> or
  \<open>load_csv_data\<close> returns \<open>None\<close>), standard input and the output files.
  Clearing the screen, creating the three directories, the printed menus and messages,
  and opening the PDF in the viewer after single mode are left out; an interrupt is
  modelled where \<open>input\<close> waits.
\<close>

record 'v world =
  html_templates :: "(string \<times> string option) list"
  csv_files :: "(string \<times> 'v dataframe option) list"
  stdin :: "event list"
  output_dir :: files

definition stopped :: "'v world \<Rightarrow> exn option \<Rightarrow> 'v run" where
  "stopped w r =
     \<lparr>outcome = r, out_files = output_dir w, created_files = [], errors = [],
      summary_printed = False, rendered = []\<rparr>"

text \<open>
  The menus of \<open>main\<close> up to the choice of the mode: the template's stem and text,
  the data file's stem and table, the mode and the input left; or how \<open>main\<close> ends
  before.
\<close>

record 'v selection =
  sel_template_stem :: string
  sel_template_html :: string
  sel_csv_stem :: string
  sel_data_df :: "'v dataframe"
  sel_mode :: nat
  sel_input :: "event list"

definition select_inputs ::
  "('v, 'f) builtins \<Rightarrow> 'v world \<Rightarrow> exn option + 'v selection" where
  "select_inputs B w =
     (if html_templates w = [] then Inl (Some (SystemExit 1))
      else case get_choice B (length (html_templates w)) (stdin w) of
        (Inl e, _) \<Rightarrow> Inl (Some e)
      | (Inr template_choice, inp1) \<Rightarrow>
      (let selected_template = html_templates w ! (template_choice - 1)
       in case snd selected_template of
         None \<Rightarrow> Inl None
       | Some html \<Rightarrow>
      (if csv_files w = [] then Inl (Some (SystemExit 1))
       else case get_choice B (length (csv_files w)) inp1 of
         (Inl e, _) \<Rightarrow> Inl (Some e)
       | (Inr csv_choice, inp2) \<Rightarrow>
      (let selected_csv = csv_files w ! (csv_choice - 1)
       in case snd selected_csv of
         None \<Rightarrow> Inl None
       | Some df \<Rightarrow>
      (case get_choice B 2 inp2 of
         (Inl e, _) \<Rightarrow> Inl (Some e)
       | (Inr mode, inp3) \<Rightarrow>
           Inr \<lparr>sel_template_stem = fst selected_template, sel_template_html = html,
                sel_csv_stem = fst selected_csv, sel_data_df = df, sel_mode = mode,
                sel_input = inp3\<rparr>)))))"

definition main :: "('v, 'f) builtins \<Rightarrow> emitter \<Rightarrow> 'v world \<Rightarrow> 'v run" where
  "main B E w =
     (case select_inputs B w of
        Inl r \<Rightarrow> stopped w r
      | Inr s \<Rightarrow>
          (case unique_ids B (sel_data_df s) of
             Inl e \<Rightarrow> stopped w (Some e)
           | Inr ids \<Rightarrow>
               if sel_mode s = 1 then
                 single_mode B E (sel_template_stem s) (sel_template_html s) (sel_csv_stem s) (sel_data_df s)
                   ids (sel_input s) (output_dir w)
               else
                 batch_mode B E (sel_template_stem s) (sel_template_html s) (sel_csv_stem s) (sel_data_df s)
                   ids (output_dir w)))"

text \<open>
  The guard around \<open>main()\<close>: the exit code of the process. \<open>KeyboardInterrupt\<close> is
  caught and followed by \<open>sys.exit(0)\<close>, a \<open>SystemExit\<close> passes with its code, any
  other exception is caught and followed by \<open>sys.exit(1)\<close>.
\<close>

fun main_guard :: "exn option \<Rightarrow> int" where
  "main_guard None = 0"
| "main_guard (Some KeyboardInterrupt) = 0"
| "main_guard (Some (SystemExit code)) = code"
| "main_guard (Some e) = 1"

definition exit_code :: "('v, 'f) builtins \<Rightarrow> emitter \<Rightarrow> 'v world \<Rightarrow> int" where
  "exit_code B E w = main_guard (outcome (main B E w))"

section \<open>An instance for the examples\<close>

text \<open>
  In the examples every cell is text or missing, and a number is a whole amount or
  \<open>nan\<close>. \<open>float\<close> reads a non-empty string of digits, returns \<open>nan\<close> for a missing
  value, as \<open>float(nan)\<close> does, and raises on the other strings of the examples; a sum
  with \<open>nan\<close> is \<open>nan\<close>; \<open>.2f\<close> appends \<open>.00\<close> to an amount and prints \<open>nan\<close>
  as \<open>nan\<close>; \<open>int\<close> reads a non-empty string of digits; \<open>sorted\<close> orders by the
  number an identifier denotes.
\<close>

datatype amount = Amount nat | NotANumber

fun amount_add :: "amount \<Rightarrow> amount \<Rightarrow> amount" where
  "amount_add (Amount a) (Amount b) = Amount (a + b)"
| "amount_add NotANumber b = NotANumber"
| "amount_add a NotANumber = NotANumber"

fun amount_format :: "amount \<Rightarrow> string" where
  "amount_format (Amount n) = str_nat n @ ''.00''"
| "amount_format NotANumber = ''nan''"

fun digits_value :: "nat \<Rightarrow> string \<Rightarrow> nat option" where
  "digits_value acc [] = Some acc"
| "digits_value acc (c # cs) =
     (let n = (of_char c :: nat)
      in if 48 \<le> n \<and> n \<le> 57 then digits_value (10 * acc + (n - 48)) cs else None)"

definition read_nat :: "string \<Rightarrow> nat option" where
  "read_nat s = (if s = [] then None else digits_value 0 s)"

definition text_of :: "string cell \<Rightarrow> string" where
  "text_of c = (case c of Val s \<Rightarrow> s | NaN \<Rightarrow> ''nan'')"

definition amount_of :: "string cell \<Rightarrow> amount option" where
  "amount_of c = (case c of Val s \<Rightarrow> map_option Amount (read_nat s) | NaN \<Rightarrow> Some NotANumber)"

definition id_number :: "string cell \<Rightarrow> nat" where
  "id_number c = (case c of Val s \<Rightarrow> (case read_nat s of Some n \<Rightarrow> n | None \<Rightarrow> 0) | NaN \<Rightarrow> 0)"

definition example_builtins :: "(string, amount) builtins" where
  "example_builtins =
     \<lparr>py_str = text_of,
      py_float = amount_of,
      py_add = amount_add,
      py_zero = Amount 0,
      py_format_2f = amount_format,
      py_sorted = (\<lambda>xs. Some (sort_key id_number xs)),
      py_int = (\<lambda>s. map_option int (read_nat s))\<rparr>"

text \<open>A row given by its fields; any other name reads as \<open>NaN\<close>.\<close>

definition row_of :: "(string \<times> string) list \<Rightarrow> string \<Rightarrow> string cell" where
  "row_of kvs name = (case map_of kvs name of Some s \<Rightarrow> Val s | None \<Rightarrow> NaN)"

text \<open>The table of the specification's example, two items of the act with id 1.\<close>

definition example_act :: "string dataframe" where
  "example_act =
     \<lparr>columns = [''id'', ''act_number'', ''act_date'', ''contract_number'', ''object_address'',
                 ''client'', ''contractor'', ''work_name'', ''quantity'', ''unit'',
                 ''unit_price'', ''total''],
      rows =
        [row_of [(''id'', ''1''), (''act_number'', ''7''), (''act_date'', ''2024-01-01''),
                 (''contract_number'', ''C-1''), (''object_address'', ''Main St''),
                 (''client'', ''Ann''), (''contractor'', ''Bob''),
                 (''work_name'', ''Paint wall''), (''quantity'', ''2''), (''unit'', ''m2''),
                 (''unit_price'', ''10''), (''total'', ''20'')],
         row_of [(''id'', ''1''), (''act_number'', ''7''), (''act_date'', ''2024-01-01''),
                 (''contract_number'', ''C-1''), (''object_address'', ''Main St''),
                 (''client'', ''Ann''), (''contractor'', ''Bob''),
                 (''work_name'', ''Seal''), (''quantity'', ''1''), (''unit'', ''pc''),
                 (''unit_price'', ''5''), (''total'', ''5'')]]\<rparr>"

text \<open>
  The same table with a third item whose total is the text \<open>tbd\<close>, and that table
  with a fourth item whose total field is empty, which \<open>read_csv\<close> reads as the
  missing value.
\<close>

definition example_act_bad_total :: "string dataframe" where
  "example_act_bad_total =
     example_act\<lparr>rows := rows example_act @
       [row_of [(''id'', ''1''), (''act_number'', ''7''), (''act_date'', ''2024-01-01''),
                (''contract_number'', ''C-1''), (''object_address'', ''Main St''),
                (''client'', ''Ann''), (''contractor'', ''Bob''),
                (''work_name'', ''Visit''), (''quantity'', ''1''), (''unit'', ''h''),
                (''unit_price'', ''free''), (''total'', ''tbd'')]]\<rparr>"

definition example_act_empty_total :: "string dataframe" where
  "example_act_empty_total =
     example_act_bad_total\<lparr>rows := rows example_act_bad_total @
       [row_of [(''id'', ''1''), (''act_number'', ''7''), (''act_date'', ''2024-01-01''),
                (''contract_number'', ''C-1''), (''object_address'', ''Main St''),
                (''client'', ''Ann''), (''contractor'', ''Bob''),
                (''work_name'', ''Survey''), (''quantity'', ''1''), (''unit'', ''h''),
                (''unit_price'', ''15'')]]\<rparr>"

section \<open>What the specification says the act contains\<close>

text \<open>
  The item table: one fragment per row, numbered from 1 in the order of the rows.
\<close>

definition item_rows :: "('v, 'f) builtins \<Rightarrow> (string \<Rightarrow> 'v cell) list \<Rightarrow> string list" where
  "item_rows B rs = map2 (row_fragment B) [1..<Suc (length rs)] rs"

text \<open>
  The total: the sum, from 0 and in the order of the rows, of the totals that
  \<open>float\<close> returns a number for (\<open>parsed_totals\<close>), the rows for which it raises left
  out. A text has exactly two decimal places when it ends with a point and two digits.
\<close>

definition sum_totals :: "('v, 'f) builtins \<Rightarrow> 'f list \<Rightarrow> 'f" where
  "sum_totals B xs = foldl (py_add B) (py_zero B) xs"

definition is_digit :: "char \<Rightarrow> bool" where
  "is_digit c = (let n = (of_char c :: nat) in 48 \<le> n \<and> n \<le> 57)"

definition two_decimals :: "string \<Rightarrow> bool" where
  "two_decimals s =
     (case rev s of
        d2 # d1 # p # _ \<Rightarrow> is_digit d2 \<and> is_digit d1 \<and> p = CHR ''.''
      | _ \<Rightarrow> False)"

definition parsed_totals :: "('v, 'f) builtins \<Rightarrow> (string \<Rightarrow> 'v cell) list \<Rightarrow> 'f list" where
  "parsed_totals B rs = List.map_filter (\<lambda>r. py_float B (r ''total'')) rs"

text \<open>A table of certificates with the ids 2 and 1, in this order.\<close>

definition example_certificates :: "string dataframe" where
  "example_certificates =
     \<lparr>columns = [''id'', ''student_name'', ''course_name'', ''cert_date''],
      rows =
        [row_of [(''id'', ''2''), (''student_name'', ''Bob''), (''course_name'', ''Logic''),
                 (''cert_date'', ''2024-02-02'')],
         row_of [(''id'', ''1''), (''student_name'', ''Ann''), (''course_name'', ''Proof''),
                 (''cert_date'', ''2024-01-01'')]]\<rparr>"

text \<open>
  An emitter on xhtml2pdf whose conversion reports an error for the document \<open>Bob\<close>
  after writing three bytes, and succeeds on every other document.
\<close>

definition example_emitter :: emitter where
  "example_emitter =
     \<lparr>kind = Xhtml2pdf,
      write_pdf = (\<lambda>html path. Written (''%PDF '' @ html)),
      CreatePDF = (\<lambda>html. if html = ''Bob'' then PisaStatus ''%PD'' 1
                           else PisaStatus (''%PDF '' @ html) 0),
      can_open = (\<lambda>path. True)\<rparr>"

text \<open>
  A run in batch mode: one template \<open>certificate.html\<close>, one data file
  \<open>students.csv\<close>, the answers 1, 1 and 2 to the three menus, and an output
  directory without files.
\<close>

definition no_files :: files where
  "no_files = Map.empty"

definition example_world :: "string dataframe \<Rightarrow> string world" where
  "example_world df =
     \<lparr>html_templates = [(''certificate'', Some ''$student_name'')],
      csv_files = [(''students'', Some df)],
      stdin = [Line ''1'', Line ''1'', Line ''2''],
      output_dir = no_files\<rparr>"

text \<open>
  The table of certificates with a third row whose id field is empty, and a table that
  has the ids 1 and 2 and no other column.
\<close>

definition example_missing_id :: "string dataframe" where
  "example_missing_id =
     example_certificates\<lparr>rows := rows example_certificates @
       [row_of [(''student_name'', ''Eve''), (''course_name'', ''Sets''),
                (''cert_date'', ''2024-03-03'')]]\<rparr>"

definition example_ids_only :: "string dataframe" where
  "example_ids_only =
     \<lparr>columns = [''id''], rows = [row_of [(''id'', ''1'')], row_of [(''id'', ''2'')]]\<rparr>"

text \<open>
  The table of the act without the column \<open>contractor\<close>, its second item under the
  id 2.
\<close>

definition example_two_acts :: "string dataframe" where
  "example_two_acts =
     \<lparr>columns = [''id'', ''act_number'', ''act_date'', ''contract_number'', ''object_address'',
                 ''client'', ''work_name'', ''quantity'', ''unit'', ''unit_price'', ''total''],
      rows = [rows example_act ! 0, (rows example_act ! 1)(''id'' := Val ''2'')]\<rparr>"

section \<open>What the specification says of a batch\<close>

text \<open>
  \<open>sorted\<close> returns its argument rearranged. An identifier is emitted when its
  render returns a document and the emitter reports success for it; whether the
  emitter succeeds does not depend on the files present. The fields a strategy reads.
\<close>

definition sorted_rearranges :: "('v, 'f) builtins \<Rightarrow> bool" where
  "sorted_rearranges B =
     (\<forall>xs ys. py_sorted B xs = Some ys \<longrightarrow> length ys = length xs \<and> set ys = set xs)"


definition required_fields :: "string \<Rightarrow> string list" where
  "required_fields tn =
     (if tn = ''act'' then act_row_fields @ act_header_fields
      else if tn = ''certificate'' then certificate_fields
      else [])"




section \<open>Properties\<close>

lemmas example_defs =
  example_act_def example_act_bad_total_def example_act_empty_total_def
  example_certificates_def example_builtins_def row_of_def text_of_def
  amount_of_def id_number_def read_nat_def act_row_fields_def act_header_fields_def certificate_fields_def
  is_id_start_def is_id_char_def safe_substitute_def act_values_def certificate_values_def
  row_fragment_def example_emitter_def example_world_def example_missing_id_def
  example_ids_only_def example_two_acts_def no_files_def

lemmas run_defs =
  main_def select_inputs_def unique_ids_def unique_def batch_mode_def single_mode_def
  stopped_def render_template_def filter_id_def cell_eq_def render_certificate_template_def
  render_act_template_def missing_attr_def generate_pdf_def output_filename_def output_path_def
  exit_code_def

subsection \<open>Reading attributes\<close>

lemma missing_attr_None: "missing_attr cols names = None \<longleftrightarrow> set names \<subseteq> set cols"
proof -
  have "missing_attr cols names = None \<longleftrightarrow> filter (\<lambda>n. n \<notin> set cols) names = []"
    by (simp add: missing_attr_def split: list.splits)
  also have "\<dots> \<longleftrightarrow> set names \<subseteq> set cols"
    by (auto simp: filter_empty_conv)
  finally show ?thesis .
qed

lemma missing_attr_Some:
  "missing_attr cols names = Some n \<Longrightarrow> n \<in> set names \<and> n \<notin> set cols"
proof -
  assume "missing_attr cols names = Some n"
  then obtain ms where "filter (\<lambda>n. n \<notin> set cols) names = n # ms"
    by (auto simp: missing_attr_def split: list.splits)
  then have "n \<in> set (filter (\<lambda>n. n \<notin> set cols) names)" by simp
  then show ?thesis by simp
qed

subsection \<open>The loop of the act\<close>

lemma act_loop_rows:
  assumes "set act_row_fields \<subseteq> set cols"
  shows "act_loop B cols rs idx acc tot =
           Inr (acc @ concat (map2 (row_fragment B) [idx..<idx + length rs] rs),
                foldl (\<lambda>t r. add_total B cols r t) tot rs)"
proof (induction rs arbitrary: idx acc tot)
  case Nil
  show ?case by simp
next
  case (Cons r rs)
  have m: "missing_attr cols act_row_fields = None"
    using assms by (simp add: missing_attr_None)
  have "idx < idx + length (r # rs)"
    by simp
  then have u: "[idx..<idx + length (r # rs)] = idx # [Suc idx..<Suc idx + length rs]"
    by (simp only: upt_conv_Cons) simp
  show ?case
    unfolding u using Cons.IH [of "Suc idx"] m by simp
qed

lemma fold_add_total:
  assumes "''total'' \<in> set cols"
  shows "foldl (\<lambda>t r. add_total B cols r t) tot rs = foldl (py_add B) tot (parsed_totals B rs)"
  using assms
  by (induction rs arbitrary: tot)
     (auto simp: parsed_totals_def add_total_def split: option.splits)

lemma render_act_template_closed:
  assumes "rows df \<noteq> []"
    and "set act_row_fields \<subseteq> set (columns df)"
    and "set act_header_fields \<subseteq> set (columns df)"
  shows "render_act_template B t df =
           Html (safe_substitute
             (act_values B (rows df ! 0) (concat (item_rows B (rows df)))
                (sum_totals B (parsed_totals B (rows df)))) t)"
proof -
  have tot: "''total'' \<in> set (columns df)"
    using assms(2) by (simp add: act_row_fields_def)
  have "act_loop B (columns df) (rows df) 1 [] (py_zero B) =
          Inr (concat (item_rows B (rows df)), sum_totals B (parsed_totals B (rows df)))"
    using act_loop_rows [OF assms(2), of B "rows df" 1 "[]" "py_zero B"]
    by (simp add: item_rows_def sum_totals_def fold_add_total [OF tot])
  moreover have "missing_attr (columns df) act_header_fields = None"
    using assms(3) by (simp add: missing_attr_None)
  ultimately show ?thesis
    using assms(1) by (simp add: render_act_template_def)
qed

subsection \<open>The grand total of the act\<close>

text \<open>
  C1. The loop counts a total that \<open>float\<close> rejects as 0: with the totals 20, 5 and
  the text \<open>tbd\<close> the act shows the total 25.00, with two decimal places. It misses
  the empty total field: \<open>read_csv\<close> reads it as the missing value, \<open>float\<close> returns
  \<open>nan\<close> for it without raising, the sum becomes \<open>nan\<close>, and the act shows \<open>nan\<close>,
  which is neither the sum of the readable totals nor a number with two decimal places.
\<close>

theorem act_total_empty_field:
  "map (py_float example_builtins) (map (\<lambda>r. r ''total'') (rows example_act_empty_total)) =
     [Some (Amount 20), Some (Amount 5), None, Some NotANumber]
   \<and> render_act_template example_builtins ''Total: $total_amount'' example_act_bad_total =
       Html ''Total: 25.00''
   \<and> two_decimals ''25.00''
   \<and> render_act_template example_builtins ''Total: $total_amount'' example_act_empty_total =
       Html ''Total: nan''
   \<and> \<not> two_decimals ''nan''"
  by (simp add: render_act_template_def missing_attr_def add_total_def two_decimals_def
        is_digit_def example_defs)

subsection \<open>The item table of the act\<close>





subsection \<open>Permissive substitution\<close>

lemma braced_id_text: "braced_id ds = Some (n, rs) \<Longrightarrow> ds = n @ CHR ''}'' # rs"
proof -
  assume h: "braced_id ds = Some (n, rs)"
  then have "takeWhile is_id_char ds = n" "dropWhile is_id_char ds = CHR ''}'' # rs"
    by (auto simp: braced_id_def split: list.splits if_splits)
  then show ?thesis
    using takeWhile_dropWhile_id [of is_id_char ds] by simp
qed

lemma tokenize_source: "concat (map source (tokenize s)) = s"
proof (induction s rule: tokenize.induct)
  case 1
  show ?case by simp
next
  case (2 c cs)
  show ?case
  proof (cases "c = CHR ''$''")
    case False
    with 2 show ?thesis by simp
  next
    case True
    show ?thesis
    proof (cases cs)
      case Nil
      with True show ?thesis by simp
    next
      case (Cons d ds)
      show ?thesis
      proof (cases "d = CHR ''$''")
        case d: True
        with 2 True Cons show ?thesis by simp
      next
        case nd: False
        show ?thesis
        proof (cases "is_id_start d")
          case True
          with 2(3) [OF _ Cons nd] \<open>c = CHR ''$''\<close> Cons nd show ?thesis by simp
        next
          case ns: False
          show ?thesis
          proof (cases "d = CHR ''{''")
            case False
            have "tokenize (c # cs) = Invalid # tokenize cs"
              using True Cons nd ns False by simp
            with 2(6) [OF _ Cons nd ns False] True show ?thesis
              by (simp del: tokenize.simps)
          next
            case br: True
            show ?thesis
            proof (cases "braced_id ds")
              case None
              have "tokenize (c # cs) = Invalid # tokenize cs"
                using True Cons nd ns br None by simp
              with 2(4) [OF _ Cons nd ns br None] True show ?thesis
                by (simp del: tokenize.simps)
            next
              case (Some p)
              obtain n rs where p: "p = (n, rs)" by (cases p)
              from Some p have "ds = n @ CHR ''}'' # rs" by (simp add: braced_id_text)
              with 2(5) [OF _ Cons nd ns br Some p [symmetric]] True Cons nd ns br Some p
              show ?thesis by simp
            qed
          qed
        qed
      qed
    qed
  qed
qed

lemma convert_missing:
  "(t = Named n \<or> t = Braced n) \<Longrightarrow> m n = None \<Longrightarrow> convert m t = source t"
  by auto

lemma convert_all_missing:
  assumes "t \<noteq> Escaped" and "\<forall>n. (t = Named n \<or> t = Braced n) \<longrightarrow> m n = None"
  shows "convert m t = source t"
  using assms by (cases t) auto

lemma safe_substitute_all_missing:
  assumes "\<forall>t \<in> set (tokenize s). t \<noteq> Escaped \<and> (\<forall>n. (t = Named n \<or> t = Braced n) \<longrightarrow> m n = None)"
  shows "safe_substitute m s = s"
proof -
  have "map (convert m) (tokenize s) = map source (tokenize s)"
    using assms by (intro map_cong refl convert_all_missing) auto
  then have "safe_substitute m s = concat (map source (tokenize s))"
    by (simp only: safe_substitute_def)
  then show ?thesis
    by (simp only: tokenize_source)
qed

lemma render_certificate_template_closed:
  assumes "set certificate_fields \<subseteq> set (fst data_row)"
  shows "render_certificate_template B t data_row =
           Html (safe_substitute (certificate_values B (snd data_row)) t)"
  using assms by (simp add: render_certificate_template_def missing_attr_None [THEN iffD2])

text \<open>
  C8. For every template string and every set of substitution values: the tokens of
  the pattern partition the template text; a placeholder \<open>$name\<close> or \<open>${name}\<close>
  whose name is not among the values is replaced by its own text; a template without
  \<open>$$\<close> whose placeholders are all missing is returned unchanged; and whatever
  placeholders the template has, both strategies return a document once the columns
  they read are there, so a missing key never aborts the render.
\<close>

theorem missing_placeholders_verbatim:
  "concat (map source (tokenize s)) = s
   \<and> safe_substitute m s = concat (map (convert m) (tokenize s))
   \<and> (\<forall>t \<in> set (tokenize s). \<forall>n.
         (t = Named n \<or> t = Braced n) \<and> m n = None \<longrightarrow> convert m t = source t)
   \<and> ((\<forall>t \<in> set (tokenize s).
          t \<noteq> Escaped \<and> (\<forall>n. (t = Named n \<or> t = Braced n) \<longrightarrow> m n = None))
        \<longrightarrow> safe_substitute m s = s)
   \<and> (rows df \<noteq> [] \<and> set act_row_fields \<subseteq> set (columns df)
        \<and> set act_header_fields \<subseteq> set (columns df)
        \<longrightarrow> render_act_template B s df =
              Html (safe_substitute
                (act_values B (rows df ! 0) (concat (item_rows B (rows df)))
                   (sum_totals B (parsed_totals B (rows df)))) s))
   \<and> (set certificate_fields \<subseteq> set (fst data_row)
        \<longrightarrow> render_certificate_template B s data_row =
              Html (safe_substitute (certificate_values B (snd data_row)) s))"
proof (intro conjI)
  show "concat (map source (tokenize s)) = s"
    by (rule tokenize_source)
  show "safe_substitute m s = concat (map (convert m) (tokenize s))"
    by (rule safe_substitute_def)
  show "\<forall>t \<in> set (tokenize s). \<forall>n.
         (t = Named n \<or> t = Braced n) \<and> m n = None \<longrightarrow> convert m t = source t"
    using convert_missing [of _ _ m] by blast
  show "(\<forall>t \<in> set (tokenize s).
          t \<noteq> Escaped \<and> (\<forall>n. (t = Named n \<or> t = Braced n) \<longrightarrow> m n = None))
        \<longrightarrow> safe_substitute m s = s"
    using safe_substitute_all_missing [of s m] by blast
  show "rows df \<noteq> [] \<and> set act_row_fields \<subseteq> set (columns df)
        \<and> set act_header_fields \<subseteq> set (columns df)
        \<longrightarrow> render_act_template B s df =
              Html (safe_substitute
                (act_values B (rows df ! 0) (concat (item_rows B (rows df)))
                   (sum_totals B (parsed_totals B (rows df)))) s)"
    using render_act_template_closed [of df B s] by blast
  show "set certificate_fields \<subseteq> set (fst data_row)
        \<longrightarrow> render_certificate_template B s data_row =
              Html (safe_substitute (certificate_values B (snd data_row)) s)"
    using render_certificate_template_closed [of data_row B s] by blast
qed

theorem missing_placeholders_verbatim_witness:
  "Named ''grade'' \<in> set (tokenize ''Dear $student_name: $grade ${signature}'')
   \<and> Braced ''signature'' \<in> set (tokenize ''Dear $student_name: $grade ${signature}'')
   \<and> certificate_values example_builtins (rows example_certificates ! 1) ''grade'' = None
   \<and> certificate_values example_builtins (rows example_certificates ! 1) ''signature'' = None
   \<and> convert (certificate_values example_builtins (rows example_certificates ! 1))
         (Named ''grade'') = ''$grade''
   \<and> convert (certificate_values example_builtins (rows example_certificates ! 1))
         (Braced ''signature'') = ''${signature}''
   \<and> safe_substitute Map.empty ''Dear $student_name: $grade ${signature}'' =
         ''Dear $student_name: $grade ${signature}''
   \<and> rows example_act \<noteq> []
   \<and> set act_row_fields \<subseteq> set (columns example_act)
   \<and> set act_header_fields \<subseteq> set (columns example_act)
   \<and> render_act_template example_builtins ''Act $act_number for ${client}: $grade'' example_act =
         Html ''Act 7 for Ann: $grade''
   \<and> set certificate_fields \<subseteq> set (columns example_certificates)
   \<and> render_certificate_template example_builtins ''Dear $student_name: $grade ${signature}''
         (columns example_certificates, rows example_certificates ! 1) =
         Html ''Dear Ann: $grade ${signature}''"
proof -
  let ?s = "''Dear $student_name: $grade ${signature}''"
  let ?m = "certificate_values example_builtins (rows example_certificates ! 1)"
  let ?row = "(columns example_certificates, rows example_certificates ! 1)"
  let ?a = "''Act $act_number for ${client}: $grade''"
  note inst = missing_placeholders_verbatim [of ?s ?m example_act example_builtins ?row]
  note inst_empty = missing_placeholders_verbatim [of ?s Map.empty example_act example_builtins ?row]
  note inst_act = missing_placeholders_verbatim [of ?a Map.empty example_act example_builtins ?row]
  have tok: "tokenize ?s =
      map Text ''Dear '' @ [Named ''student_name''] @ map Text '': '' @ [Named ''grade'', Text CHR '' '',
        Braced ''signature'']"
    by (simp add: example_defs braced_id_def)
  have g: "Named ''grade'' \<in> set (tokenize ?s)" and b: "Braced ''signature'' \<in> set (tokenize ?s)"
    by (simp_all only: tok) simp_all
  have mg: "?m ''grade'' = None" and ms: "?m ''signature'' = None"
    by (simp_all add: example_defs)
  have cg: "convert ?m (Named ''grade'') = ''$grade''"
    using inst g mg by fastforce
  have cb: "convert ?m (Braced ''signature'') = ''${signature}''"
    using inst b ms by fastforce
  have e: "safe_substitute Map.empty ?s = ?s"
    using inst_empty by (simp only: tok) simp
  have a1: "rows example_act \<noteq> []"
    and a2: "set act_row_fields \<subseteq> set (columns example_act)"
    and a3: "set act_header_fields \<subseteq> set (columns example_act)"
    by (simp_all add: example_defs)
  have av: "safe_substitute
              (act_values example_builtins (rows example_act ! 0)
                 (concat (item_rows example_builtins (rows example_act)))
                 (sum_totals example_builtins (parsed_totals example_builtins (rows example_act))))
              ?a = ''Act 7 for Ann: $grade''"
    by (simp add: example_defs braced_id_def)
  have ra: "render_act_template example_builtins ?a example_act = Html ''Act 7 for Ann: $grade''"
    using inst_act a1 a2 a3 av by simp
  have c1: "set certificate_fields \<subseteq> set (columns example_certificates)"
    by (simp add: example_defs)
  have cv: "safe_substitute ?m ?s = ''Dear Ann: $grade ${signature}''"
    by (simp add: example_defs braced_id_def)
  have rc: "render_certificate_template example_builtins ?s ?row = Html ''Dear Ann: $grade ${signature}''"
    using inst c1 cv by simp
  from g b mg ms cg cb e a1 a2 a3 ra c1 rc show ?thesis
    by blast
qed


subsection \<open>Failures of a render\<close>

lemma filter_id_absent:
  "selected_id \<notin> (\<lambda>r. r ''id'') ` set (rows df) \<Longrightarrow> filter_id df selected_id = []"
  by (auto simp: filter_id_def cell_eq_def filter_empty_conv)

lemma render_template_no_data:
  assumes "''id'' \<in> set (columns df)" and "filter_id df selected_id = []"
  shows "render_template B tn t df selected_id = Failed NoDataForId"
  using assms by (simp add: render_template_def)

lemma batch_loop_failed:
  assumes "render_template B tn t df i = Failed f"
  shows "batch_loop B E tn t cn df [i] st =
           st\<lparr>rendered := rendered st @ [i], errors := errors st @ [''ID '' @ py_str B i]\<rparr>"
  using assms by simp

lemma single_mode_failed:
  assumes "fst (get_choice B (length ids) inp) = Inr c" and "ids ! (c - 1) = i"
    and "render_template B tn t df i = Failed f"
  shows "single_mode B E tn t cn df ids inp fs =
           \<lparr>outcome = None, out_files = fs, created_files = [], errors = [],
            summary_printed = False, rendered = [i]\<rparr>"
  using assms by (simp add: single_mode_def)

text \<open>
  C7. When the table has an id column and the requested identifier is not among its
  values, the render fails with the condition \<open>NoDataForId\<close>; the batch loop
  records the identifier as an error and single mode returns, and neither writes a
  file.
\<close>

theorem absent_id_no_data:
  assumes "''id'' \<in> set (columns df)"
    and "selected_id \<notin> (\<lambda>r. r ''id'') ` set (rows df)"
  shows "render_template B tn t df selected_id = Failed NoDataForId
         \<and> batch_loop B E tn t cn df [selected_id] st =
             st\<lparr>rendered := rendered st @ [selected_id],
                errors := errors st @ [''ID '' @ py_str B selected_id]\<rparr>
         \<and> out_files (batch_loop B E tn t cn df [selected_id] st) = out_files st
         \<and> created_files (batch_loop B E tn t cn df [selected_id] st) = created_files st
         \<and> (fst (get_choice B (length ids) inp) = Inr c \<and> ids ! (c - 1) = selected_id \<longrightarrow>
              single_mode B E tn t cn df ids inp fs =
                \<lparr>outcome = None, out_files = fs, created_files = [], errors = [],
                 summary_printed = False, rendered = [selected_id]\<rparr>)"
proof -
  have r: "render_template B tn t df selected_id = Failed NoDataForId"
    using assms by (simp add: render_template_no_data filter_id_absent)
  show ?thesis
    using r batch_loop_failed [OF r, of E cn st] single_mode_failed [OF _ _ r, of ids inp c E cn fs]
    by simp
qed

theorem absent_id_no_data_witness:
  "''id'' \<in> set (columns example_certificates)
   \<and> Val ''3'' \<notin> (\<lambda>r. r ''id'') ` set (rows example_certificates)
   \<and> render_template example_builtins ''certificate'' ''$student_name'' example_certificates
        (Val ''3'') = Failed NoDataForId
   \<and> out_files (batch_loop example_builtins example_emitter ''certificate'' ''$student_name''
        ''students'' example_certificates [Val ''3'']
        \<lparr>outcome = None, out_files = Map.empty, created_files = [], errors = [],
         summary_printed = False, rendered = []\<rparr>) = Map.empty
   \<and> fst (get_choice example_builtins (length [Val ''3'' :: string cell]) [Line ''1'']) = Inr 1
   \<and> single_mode example_builtins example_emitter ''certificate'' ''$student_name''
        ''students'' example_certificates [Val ''3''] [Line ''1''] Map.empty =
        \<lparr>outcome = None, out_files = Map.empty, created_files = [], errors = [],
         summary_printed = False, rendered = [Val ''3'']\<rparr>"
proof -
  have a: "''id'' \<in> set (columns example_certificates)"
    by (simp add: example_defs)
  have b: "Val ''3'' \<notin> (\<lambda>r. r ''id'') ` set (rows example_certificates)"
    by (simp add: example_defs)
  have c: "fst (get_choice example_builtins (length [Val ''3'' :: string cell]) [Line ''1'']) = Inr 1"
    by (simp add: example_defs)
  from absent_id_no_data [OF a b, of example_builtins "''certificate''" "''$student_name''"
      example_emitter "''students''"
      "\<lparr>outcome = None, out_files = Map.empty, created_files = [], errors = [],
         summary_printed = False, rendered = []\<rparr>" "[Val ''3'']" "[Line ''1'']" 1 Map.empty] a b c
  show ?thesis by simp
qed

lemma render_template_unknown:
  assumes "tn \<noteq> ''act''" and "tn \<noteq> ''certificate''"
  shows "render_template B tn t df i =
           (if ''id'' \<notin> set (columns df) then Raised (KeyError ''id'')
            else if filter_id df i = [] then Failed NoDataForId
            else Failed UnknownTemplateType)"
  using assms by (simp add: render_template_def)

lemma batch_loop_raised:
  assumes "render_template B tn t df i = Raised e"
  shows "batch_loop B E tn t cn df (i # ids) st =
           st\<lparr>rendered := rendered st @ [i], outcome := Some e\<rparr>"
  using assms by simp

lemma single_mode_no_html:
  assumes "\<forall>i h. render_template B tn t df i \<noteq> Html h"
  shows "out_files (single_mode B E tn t cn df ids inp fs) = fs"
proof (cases "fst (get_choice B (length ids) inp)")
  case (Inl e)
  then show ?thesis by (simp add: single_mode_def)
next
  case (Inr c)
  then show ?thesis
    using assms [rule_format, of "ids ! (c - 1)"]
    by (cases "render_template B tn t df (ids ! (c - 1))") (simp_all add: single_mode_def)
qed

text \<open>
  C6, as amended. For a template whose base name is neither \<open>act\<close> nor
  \<open>certificate\<close> the render never returns a document and the controller writes no
  file: it fails with \<open>UnknownTemplateType\<close> when the table has an id column and the
  requested identifier has rows, with \<open>NoDataForId\<close> when it has none (that check
  comes first), and raises \<open>KeyError\<close> when the table has no id column.
\<close>

theorem unknown_template_fails:
  assumes "tn \<noteq> ''act''" and "tn \<noteq> ''certificate''"
  shows "(''id'' \<in> set (columns df) \<and> filter_id df i \<noteq> [] \<longrightarrow>
            render_template B tn t df i = Failed UnknownTemplateType)
         \<and> (''id'' \<in> set (columns df) \<and> filter_id df i = [] \<longrightarrow>
            render_template B tn t df i = Failed NoDataForId)
         \<and> (''id'' \<notin> set (columns df) \<longrightarrow>
            render_template B tn t df i = Raised (KeyError ''id''))
         \<and> (\<forall>h. render_template B tn t df i \<noteq> Html h)
         \<and> out_files (batch_loop B E tn t cn df [i] st) = out_files st
         \<and> created_files (batch_loop B E tn t cn df [i] st) = created_files st
         \<and> out_files (single_mode B E tn t cn df ids inp fs) = fs"
proof -
  note u = render_template_unknown [OF assms, of B t df]
  have nh: "\<forall>i h. render_template B tn t df i \<noteq> Html h"
    by (simp add: u)
  have b: "out_files (batch_loop B E tn t cn df [i] st) = out_files st
         \<and> created_files (batch_loop B E tn t cn df [i] st) = created_files st"
    using nh [rule_format, of i]
    by (cases "render_template B tn t df i") auto
  show ?thesis
    using nh b single_mode_no_html [OF nh, of E cn ids inp fs] by (simp add: u)
qed

theorem unknown_template_fails_witness:
  "''invoice'' \<noteq> ''act'' \<and> ''invoice'' \<noteq> ''certificate''
   \<and> ''id'' \<in> set (columns example_certificates)
   \<and> filter_id example_certificates (Val ''1'') \<noteq> []
   \<and> render_template example_builtins ''invoice'' ''$student_name'' example_certificates
        (Val ''1'') = Failed UnknownTemplateType
   \<and> filter_id example_certificates (Val ''3'') = []
   \<and> render_template example_builtins ''invoice'' ''$student_name'' example_certificates
        (Val ''3'') = Failed NoDataForId
   \<and> ''id'' \<notin> set (columns (example_certificates\<lparr>columns := [''student_name'']\<rparr>))
   \<and> render_template example_builtins ''invoice'' ''$student_name''
        (example_certificates\<lparr>columns := [''student_name'']\<rparr>) (Val ''1'') =
        Raised (KeyError ''id'')"
proof -
  have n: "''invoice'' \<noteq> ''act''" "''invoice'' \<noteq> ''certificate''"
    by simp_all
  have a: "''id'' \<in> set (columns example_certificates)"
    and b: "filter_id example_certificates (Val ''1'') \<noteq> []"
    and c: "filter_id example_certificates (Val ''3'') = []"
    and d: "''id'' \<notin> set (columns (example_certificates\<lparr>columns := [''student_name'']\<rparr>))"
    by (simp_all add: example_defs filter_id_def cell_eq_def)
  from unknown_template_fails [OF n, of example_certificates "Val ''1''" example_builtins
      "''$student_name''"] a b
  have r1: "render_template example_builtins ''invoice'' ''$student_name'' example_certificates
        (Val ''1'') = Failed UnknownTemplateType"
    by simp
  from unknown_template_fails [OF n, of example_certificates "Val ''3''" example_builtins
      "''$student_name''"] a c
  have r2: "render_template example_builtins ''invoice'' ''$student_name'' example_certificates
        (Val ''3'') = Failed NoDataForId"
    by simp
  from unknown_template_fails [OF n, of "example_certificates\<lparr>columns := [''student_name'']\<rparr>"
      "Val ''1''" example_builtins "''$student_name''"] d
  have r3: "render_template example_builtins ''invoice'' ''$student_name''
        (example_certificates\<lparr>columns := [''student_name'']\<rparr>) (Val ''1'') =
        Raised (KeyError ''id'')"
    by simp
  from n a b c d r1 r2 r3 show ?thesis by blast
qed

text \<open>
  C6 as stated fails: an unknown template name with an identifier that has no rows
  fails with \<open>NoDataForId\<close>, not with \<open>UnknownTemplateType\<close>.
\<close>

theorem unknown_template_counterexample:
  "render_template example_builtins ''invoice'' ''$student_name'' example_certificates
     (Val ''3'') \<noteq> Failed UnknownTemplateType"
  by (simp add: render_template_def filter_id_def cell_eq_def example_defs)

subsection \<open>The effect of the emitter on the files\<close>

lemma generate_pdf_other_paths:
  "q \<noteq> p \<Longrightarrow> snd (generate_pdf E h p fs) q = fs q"
  by (simp add: generate_pdf_def split: backend_kind.splits weasy_result.splits
        pisa_result.splits option.splits)

lemma generate_pdf_success:
  "fst (generate_pdf E h p fs) \<Longrightarrow> \<exists>pdf. snd (generate_pdf E h p fs) p = Some pdf"
  by (auto simp: generate_pdf_def split: backend_kind.splits weasy_result.splits
        pisa_result.splits option.splits if_splits)

text \<open>
  C5, as amended. The emitter changes no file but the destination, and on success the
  destination holds the backend's output. On failure the destination is untouched if
  there is no backend, if it cannot be opened, or if WeasyPrint raised before writing;
  under xhtml2pdf the destination, once opened, is created or truncated and keeps what
  the backend wrote, also when the emitter reports failure.
\<close>

theorem generate_pdf_effect:
  "(\<forall>q. q \<noteq> p \<longrightarrow> snd (generate_pdf E h p fs) q = fs q)
   \<and> (fst (generate_pdf E h p fs) \<longrightarrow> (\<exists>pdf. snd (generate_pdf E h p fs) p = Some pdf))
   \<and> (kind E = NoBackend \<or> (kind E = Xhtml2pdf \<and> \<not> can_open E p)
        \<or> (kind E = WeasyPrint \<and> write_pdf E h p = WriteRaised None)
        \<longrightarrow> generate_pdf E h p fs = (False, fs))
   \<and> (kind E = Xhtml2pdf \<and> can_open E p \<longrightarrow>
        (\<forall>pdf err. CreatePDF E h = PisaStatus pdf err \<longrightarrow>
           generate_pdf E h p fs = (err = 0, fs(p \<mapsto> pdf)))
        \<and> (\<forall>part. CreatePDF E h = PisaRaised part \<longrightarrow>
           generate_pdf E h p fs = (False, fs(p \<mapsto> part))))
   \<and> (kind E = WeasyPrint \<longrightarrow>
        (\<forall>pdf. write_pdf E h p = Written pdf \<longrightarrow>
           generate_pdf E h p fs = (True, fs(p \<mapsto> pdf)))
        \<and> (\<forall>part. write_pdf E h p = WriteRaised (Some part) \<longrightarrow>
           generate_pdf E h p fs = (False, fs(p \<mapsto> part))))"
proof (intro conjI)
  show "\<forall>q. q \<noteq> p \<longrightarrow> snd (generate_pdf E h p fs) q = fs q"
    by (simp add: generate_pdf_other_paths)
  show "fst (generate_pdf E h p fs) \<longrightarrow> (\<exists>pdf. snd (generate_pdf E h p fs) p = Some pdf)"
    using generate_pdf_success [of E h p fs] by blast
qed (auto simp: generate_pdf_def)

theorem generate_pdf_effect_witness:
  "kind example_emitter = Xhtml2pdf \<and> can_open example_emitter ''output/a.pdf''
   \<and> CreatePDF example_emitter ''Ann'' = PisaStatus ''%PDF Ann'' 0
   \<and> generate_pdf example_emitter ''Ann'' ''output/a.pdf'' Map.empty =
        (True, [''output/a.pdf'' \<mapsto> ''%PDF Ann''])
   \<and> CreatePDF example_emitter ''Bob'' = PisaStatus ''%PD'' 1
   \<and> generate_pdf example_emitter ''Bob'' ''output/b.pdf'' [''output/b.pdf'' \<mapsto> ''old''] =
        (False, [''output/b.pdf'' \<mapsto> ''%PD''])
   \<and> kind (example_emitter\<lparr>kind := NoBackend\<rparr>) = NoBackend
   \<and> generate_pdf (example_emitter\<lparr>kind := NoBackend\<rparr>) ''Ann'' ''output/a.pdf''
        [''output/a.pdf'' \<mapsto> ''old''] = (False, [''output/a.pdf'' \<mapsto> ''old''])"
proof -
  have a: "kind example_emitter = Xhtml2pdf" "can_open example_emitter ''output/a.pdf''"
    "can_open example_emitter ''output/b.pdf''"
    "CreatePDF example_emitter ''Ann'' = PisaStatus ''%PDF Ann'' 0"
    "CreatePDF example_emitter ''Bob'' = PisaStatus ''%PD'' 1"
    "kind (example_emitter\<lparr>kind := NoBackend\<rparr>) = NoBackend"
    by (simp_all add: example_defs)
  from generate_pdf_effect [of "''output/a.pdf''" example_emitter "''Ann''" Map.empty] a
  have r1: "generate_pdf example_emitter ''Ann'' ''output/a.pdf'' Map.empty =
        (True, [''output/a.pdf'' \<mapsto> ''%PDF Ann''])"
    by simp
  from generate_pdf_effect [of "''output/b.pdf''" example_emitter "''Bob''"
      "[''output/b.pdf'' \<mapsto> ''old'']"] a
  have r2: "generate_pdf example_emitter ''Bob'' ''output/b.pdf'' [''output/b.pdf'' \<mapsto> ''old''] =
        (False, [''output/b.pdf'' \<mapsto> ''%PD''])"
    by simp
  from generate_pdf_effect [of "''output/a.pdf''" "example_emitter\<lparr>kind := NoBackend\<rparr>" "''Ann''"
      "[''output/a.pdf'' \<mapsto> ''old'']"] a
  have r3: "generate_pdf (example_emitter\<lparr>kind := NoBackend\<rparr>) ''Ann'' ''output/a.pdf''
        [''output/a.pdf'' \<mapsto> ''old''] = (False, [''output/a.pdf'' \<mapsto> ''old''])"
    by simp
  from a r1 r2 r3 show ?thesis by blast
qed

text \<open>
  C5 as stated fails: under xhtml2pdf a conversion that reports an error returns
  \<open>False\<close> and leaves at the destination, which did not exist, the bytes written so
  far.
\<close>

theorem generate_pdf_counterexample:
  "fst (generate_pdf example_emitter ''Bob'' ''output/b.pdf'' no_files) = False
   \<and> snd (generate_pdf example_emitter ''Bob'' ''output/b.pdf'' no_files) ''output/b.pdf'' =
        Some ''%PD''
   \<and> no_files ''output/b.pdf'' = None"
  by (simp add: generate_pdf_def example_defs)

subsection \<open>Exit codes\<close>

lemma main_guard_exception:
  "e \<noteq> KeyboardInterrupt \<Longrightarrow> \<forall>c. e \<noteq> SystemExit c \<Longrightarrow> main_guard (Some e) = 1"
  by (cases e) simp_all

lemma get_choice_append:
  "get_choice B n (pre @ xs) =
     (case get_choice B n pre of
        (a, r) \<Rightarrow> if a = Inl EOFError then get_choice B n xs else (a, r @ xs))"
  by (induction B n pre rule: get_choice.induct) (auto split: option.splits prod.splits)

lemma get_choice_eof_interrupt:
  assumes "fst (get_choice B n pre) = Inl EOFError"
  shows "get_choice B n (pre @ CtrlC # es) = (Inl (SystemExit 0), es)"
  using assms by (cases "get_choice B n pre") (simp add: get_choice_append)

lemma get_choice_not_eof:
  assumes "get_choice B n pre = (a, r)" and "a \<noteq> Inl EOFError"
  shows "get_choice B n (pre @ xs) = (a, r @ xs)"
  using assms by (simp add: get_choice_append)

lemma act_loop_raised:
  "act_loop B cols rs idx acc tot = Inl e \<Longrightarrow> \<exists>n. e = AttributeError n"
  by (induction rs arbitrary: idx acc tot) (auto simp: Let_def split: option.splits)

lemma render_template_raised:
  "render_template B tn t df i = Raised e \<Longrightarrow> e \<noteq> EOFError"
  using act_loop_raised [of B "columns df" "filter_id df i" 1 "[]" "py_zero B"]
  by (auto simp: render_template_def render_act_template_def render_certificate_template_def
        Let_def split: if_splits sum.splits prod.splits option.splits)

lemma batch_loop_outcome:
  "outcome (batch_loop B E tn t cn df ids st) = Some e \<Longrightarrow>
     outcome st = Some e \<or> (\<exists>i. render_template B tn t df i = Raised e)"
proof (induction ids arbitrary: st)
  case Nil
  then show ?case by simp
next
  case (Cons i ids)
  show ?case
  proof (cases "render_template B tn t df i")
    case (Html h)
    obtain ok fs where g: "generate_pdf E h (output_path (output_filename B tn cn i)) (out_files st) = (ok, fs)"
      by (cases "generate_pdf E h (output_path (output_filename B tn cn i)) (out_files st)")
    from Cons.prems Html g show ?thesis
      using Cons.IH [of "st\<lparr>rendered := rendered st @ [i], out_files := fs,
                      created_files := created_files st @ [output_filename B tn cn i]\<rparr>"]
        Cons.IH [of "st\<lparr>rendered := rendered st @ [i], out_files := fs,
                      errors := errors st @ [''ID '' @ py_str B i]\<rparr>"]
      by (cases ok) auto
  next
    case (Failed f)
    with Cons.prems show ?thesis
      using Cons.IH [of "st\<lparr>rendered := rendered st @ [i],
                      errors := errors st @ [''ID '' @ py_str B i]\<rparr>"]
      by auto
  next
    case (Raised x)
    with Cons.prems show ?thesis by auto
  qed
qed

lemma batch_mode_not_eof:
  "outcome (batch_mode B E tn t cn df ids fs) \<noteq> Some EOFError"
proof
  assume a: "outcome (batch_mode B E tn t cn df ids fs) = Some EOFError"
  let ?st = "\<lparr>outcome = None, out_files = fs, created_files = [], errors = [],
              summary_printed = False, rendered = []\<rparr> :: 'a run"
  from a have "outcome (batch_loop B E tn t cn df ids ?st) = Some EOFError"
    by (simp add: batch_mode_def Let_def split: if_splits)
  from batch_loop_outcome [OF this] render_template_raised show False
    by fastforce
qed

lemma single_mode_interrupt:
  assumes "outcome (single_mode B E tn t cn df ids inp fs) = Some EOFError"
  shows "single_mode B E tn t cn df ids (inp @ CtrlC # es) fs =
           \<lparr>outcome = Some (SystemExit 0), out_files = fs, created_files = [], errors = [],
            summary_printed = False, rendered = []\<rparr>"
proof (cases "fst (get_choice B (length ids) inp)")
  case (Inl e)
  with assms have "e = EOFError"
    by (simp add: single_mode_def)
  with Inl have "fst (get_choice B (length ids) (inp @ CtrlC # es)) = Inl (SystemExit 0)"
    by (simp add: get_choice_eof_interrupt)
  then show ?thesis
    by (simp add: single_mode_def)
next
  case (Inr c)
  with assms render_template_raised [of B tn t df "ids ! (c - 1)"] show ?thesis
    by (cases "render_template B tn t df (ids ! (c - 1))")
       (auto simp: single_mode_def Let_def split: prod.splits)
qed

lemma select_inputs_interrupt:
  assumes "select_inputs B (w\<lparr>stdin := pre\<rparr>) = Inl (Some EOFError)"
  shows "select_inputs B (w\<lparr>stdin := pre @ CtrlC # es\<rparr>) = Inl (Some (SystemExit 0))"
  using assms
  by (auto simp: select_inputs_def get_choice_append Let_def
        split: if_splits prod.splits sum.splits option.splits)

lemma select_inputs_more_input:
  assumes "select_inputs B (w\<lparr>stdin := pre\<rparr>) = Inr s"
  shows "select_inputs B (w\<lparr>stdin := pre @ xs\<rparr>) = Inr (s\<lparr>sel_input := sel_input s @ xs\<rparr>)"
  using assms
  by (auto simp: select_inputs_def get_choice_append Let_def
        split: if_splits prod.splits sum.splits option.splits)

lemma main_interrupt_at_prompt:
  assumes "outcome (main B E (w\<lparr>stdin := pre\<rparr>)) = Some EOFError"
  shows "main B E (w\<lparr>stdin := pre @ CtrlC # es\<rparr>) =
           \<lparr>outcome = Some (SystemExit 0), out_files = output_dir w, created_files = [],
            errors = [], summary_printed = False, rendered = []\<rparr>"
proof (cases "select_inputs B (w\<lparr>stdin := pre\<rparr>)")
  case (Inl r)
  with assms have "r = Some EOFError"
    by (simp add: main_def stopped_def)
  with Inl select_inputs_interrupt [where B = B and w = w and pre = pre and es = es] show ?thesis
    by (simp add: main_def stopped_def)
next
  case (Inr s)
  note m = select_inputs_more_input [OF Inr, where xs = "CtrlC # es"]
  show ?thesis
  proof (cases "unique_ids B (sel_data_df s)")
    case (Inl e)
    with assms Inr have "e = EOFError"
      by (simp add: main_def stopped_def)
    with Inl show ?thesis
      by (auto simp: unique_ids_def split: if_splits option.splits)
  next
    case u: (Inr ids)
    show ?thesis
    proof (cases "sel_mode s = 1")
      case True
      with assms Inr u
      have "outcome (single_mode B E (sel_template_stem s) (sel_template_html s) (sel_csv_stem s)
              (sel_data_df s) ids (sel_input s) (output_dir w)) = Some EOFError"
        by (simp add: main_def)
      from single_mode_interrupt [OF this, where es = es] m u True show ?thesis
        by (simp add: main_def)
    next
      case False
      with assms Inr u batch_mode_not_eof show ?thesis
        by (fastforce simp: main_def)
    qed
  qed
qed

text \<open>
  C9, as amended. Normal completion exits with code 0. Only \<open>input\<close> raises
  \<open>EOFError\<close>, when the events are used up, so a run that ends with \<open>EOFError\<close> on
  the events \<open>pre\<close> is a run that has read \<open>pre\<close> and waits at a prompt, whichever of
  the four. Such a run ends at once when the next event is the interrupt:
  \<open>get_choice\<close> catches it, nothing is rendered or written, and the exit code is 0,
  the code of normal completion. A \<open>KeyboardInterrupt\<close> that propagates out of
  \<open>main\<close> is turned into exit code 0 by the guard, any other exception into exit code
  1, and \<open>sys.exit(1)\<close> for no template found ends the process with 1. Interrupts
  at other points of the program are not part of the statement.
\<close>

theorem exit_codes:
  "main_guard None = 0
   \<and> main_guard (Some KeyboardInterrupt) = 0
   \<and> (\<forall>c. main_guard (Some (SystemExit c)) = c)
   \<and> (\<forall>e. e \<noteq> KeyboardInterrupt \<and> (\<forall>c. e \<noteq> SystemExit c) \<longrightarrow> main_guard (Some e) = 1)
   \<and> get_choice B max_value (CtrlC # es) = (Inl (SystemExit 0), es)
   \<and> (outcome (main B E (w\<lparr>stdin := pre\<rparr>)) = Some EOFError \<longrightarrow>
        main B E (w\<lparr>stdin := pre @ CtrlC # es\<rparr>) =
          \<lparr>outcome = Some (SystemExit 0), out_files = output_dir w, created_files = [],
           errors = [], summary_printed = False, rendered = []\<rparr>
        \<and> exit_code B E (w\<lparr>stdin := pre @ CtrlC # es\<rparr>) = 0)
   \<and> (outcome (main B E w) = None \<longrightarrow> exit_code B E w = 0)
   \<and> (\<forall>e. outcome (main B E w) = Some e \<and> e \<noteq> KeyboardInterrupt \<and> (\<forall>c. e \<noteq> SystemExit c)
          \<longrightarrow> exit_code B E w = 1)
   \<and> (html_templates w = [] \<longrightarrow> exit_code B E w = 1)"
proof -
  have t: "html_templates w = [] \<longrightarrow> exit_code B E w = 1"
    by (simp add: exit_code_def main_def select_inputs_def stopped_def)
  have i: "outcome (main B E (w\<lparr>stdin := pre\<rparr>)) = Some EOFError \<longrightarrow>
        main B E (w\<lparr>stdin := pre @ CtrlC # es\<rparr>) =
          \<lparr>outcome = Some (SystemExit 0), out_files = output_dir w, created_files = [],
           errors = [], summary_printed = False, rendered = []\<rparr>
        \<and> exit_code B E (w\<lparr>stdin := pre @ CtrlC # es\<rparr>) = 0"
    using main_interrupt_at_prompt [where B = B and E = E and w = w and pre = pre and es = es]
    by (simp add: exit_code_def)
  have n: "outcome (main B E w) = None \<longrightarrow> exit_code B E w = 0"
    by (simp add: exit_code_def)
  have x: "\<forall>e. outcome (main B E w) = Some e \<and> e \<noteq> KeyboardInterrupt \<and> (\<forall>c. e \<noteq> SystemExit c)
          \<longrightarrow> exit_code B E w = 1"
    using main_guard_exception by (simp add: exit_code_def)
  have g: "\<forall>e. e \<noteq> KeyboardInterrupt \<and> (\<forall>c. e \<noteq> SystemExit c) \<longrightarrow> main_guard (Some e) = 1"
    using main_guard_exception by blast
  from t i n x g show ?thesis
    by simp
qed

theorem exit_codes_witness:
  "outcome (main example_builtins example_emitter
      ((example_world example_certificates)\<lparr>stdin := []\<rparr>)) = Some EOFError
   \<and> exit_code example_builtins example_emitter
        ((example_world example_certificates)\<lparr>stdin := [] @ CtrlC # []\<rparr>) = 0
   \<and> outcome (main example_builtins example_emitter
      ((example_world example_certificates)\<lparr>stdin := [Line ''7'', Line ''1'']\<rparr>)) = Some EOFError
   \<and> exit_code example_builtins example_emitter
        ((example_world example_certificates)\<lparr>stdin := [Line ''7'', Line ''1''] @ CtrlC # []\<rparr>) = 0
   \<and> outcome (main example_builtins example_emitter
      ((example_world example_certificates)\<lparr>stdin := [Line ''1'', Line ''1'']\<rparr>)) = Some EOFError
   \<and> exit_code example_builtins example_emitter
        ((example_world example_certificates)\<lparr>stdin := [Line ''1'', Line ''1''] @ CtrlC # []\<rparr>) = 0
   \<and> outcome (main example_builtins example_emitter
      ((example_world example_certificates)\<lparr>stdin := [Line ''1'', Line ''1'', Line ''1'']\<rparr>)) =
        Some EOFError
   \<and> main example_builtins example_emitter
        ((example_world example_certificates)
           \<lparr>stdin := [Line ''1'', Line ''1'', Line ''1''] @ CtrlC # [Line ''2'']\<rparr>) =
        \<lparr>outcome = Some (SystemExit 0), out_files = no_files, created_files = [],
         errors = [], summary_printed = False, rendered = []\<rparr>
   \<and> outcome (main example_builtins example_emitter (example_world example_certificates)) = None
   \<and> exit_code example_builtins example_emitter (example_world example_certificates) = 0
   \<and> outcome (main example_builtins example_emitter (example_world example_ids_only)) =
        Some (AttributeError ''student_name'')
   \<and> exit_code example_builtins example_emitter (example_world example_ids_only) = 1
   \<and> html_templates ((example_world example_certificates)\<lparr>html_templates := []\<rparr>) = []
   \<and> exit_code example_builtins example_emitter
        ((example_world example_certificates)\<lparr>html_templates := []\<rparr>) = 1"
proof -
  let ?w = "example_world example_certificates"
  let ?m = "main example_builtins example_emitter"
  have o: "output_dir ?w = no_files"
    by (simp add: example_world_def)
  have p1: "outcome (?m (?w\<lparr>stdin := []\<rparr>)) = Some EOFError"
    by (simp add: run_defs example_defs Let_def)
  have p2: "outcome (?m (?w\<lparr>stdin := [Line ''7'', Line ''1'']\<rparr>)) = Some EOFError"
    by (simp add: run_defs example_defs Let_def)
  have p3: "outcome (?m (?w\<lparr>stdin := [Line ''1'', Line ''1'']\<rparr>)) = Some EOFError"
    by (simp add: run_defs example_defs Let_def)
  have p4: "outcome (?m (?w\<lparr>stdin := [Line ''1'', Line ''1'', Line ''1'']\<rparr>)) = Some EOFError"
    by (simp add: run_defs example_defs Let_def)
  have n: "outcome (?m ?w) = None"
    by (simp add: run_defs example_defs Let_def)
  have a: "outcome (?m (example_world example_ids_only)) = Some (AttributeError ''student_name'')"
    by (simp add: run_defs example_defs Let_def)
  have t: "html_templates (?w\<lparr>html_templates := []\<rparr>) = []"
    by simp
  from exit_codes [where B = example_builtins and E = example_emitter and es = "[]"
      and w = ?w and pre = "[]"] p1
  have r1: "exit_code example_builtins example_emitter (?w\<lparr>stdin := [] @ CtrlC # []\<rparr>) = 0"
    by blast
  from exit_codes [where B = example_builtins and E = example_emitter and es = "[]"
      and w = ?w and pre = "[Line ''7'', Line ''1'']"] p2
  have r2: "exit_code example_builtins example_emitter
              (?w\<lparr>stdin := [Line ''7'', Line ''1''] @ CtrlC # []\<rparr>) = 0"
    by blast
  from exit_codes [where B = example_builtins and E = example_emitter and es = "[]"
      and w = ?w and pre = "[Line ''1'', Line ''1'']"] p3
  have r3: "exit_code example_builtins example_emitter
              (?w\<lparr>stdin := [Line ''1'', Line ''1''] @ CtrlC # []\<rparr>) = 0"
    by blast
  from exit_codes [where B = example_builtins and E = example_emitter and es = "[Line ''2'']"
      and w = ?w and pre = "[Line ''1'', Line ''1'', Line ''1'']"] p4 o
  have r4: "?m (?w\<lparr>stdin := [Line ''1'', Line ''1'', Line ''1''] @ CtrlC # [Line ''2'']\<rparr>) =
        \<lparr>outcome = Some (SystemExit 0), out_files = no_files, created_files = [],
         errors = [], summary_printed = False, rendered = []\<rparr>"
    by simp
  from exit_codes [where B = example_builtins and E = example_emitter and es = "[]"
      and w = ?w and pre = "[]"] n
  have r5: "exit_code example_builtins example_emitter ?w = 0"
    by blast
  from exit_codes [where B = example_builtins and E = example_emitter and es = "[]"
      and w = "example_world example_ids_only" and pre = "[]"] a
  have r6: "exit_code example_builtins example_emitter (example_world example_ids_only) = 1"
    by simp
  from exit_codes [where B = example_builtins and E = example_emitter and es = "[]"
      and w = "?w\<lparr>html_templates := []\<rparr>" and pre = "[]"] t
  have r7: "exit_code example_builtins example_emitter (?w\<lparr>html_templates := []\<rparr>) = 1"
    by blast
  from p1 p2 p3 p4 n a t r1 r2 r3 r4 r5 r6 r7 show ?thesis
    by blast
qed

text \<open>
  C9 as stated fails: a run interrupted at the first prompt and a run that completes
  have the same exit code.
\<close>

theorem exit_codes_counterexample:
  "outcome (main example_builtins example_emitter
      ((example_world example_certificates)\<lparr>stdin := [CtrlC]\<rparr>)) = Some (SystemExit 0)
   \<and> outcome (main example_builtins example_emitter (example_world example_certificates)) = None
   \<and> exit_code example_builtins example_emitter
        ((example_world example_certificates)\<lparr>stdin := [CtrlC]\<rparr>) =
      exit_code example_builtins example_emitter (example_world example_certificates)"
  by (simp add: run_defs example_defs Let_def)

subsection \<open>The identifiers the controller renders\<close>

lemma get_choice_range:
  "fst (get_choice B n inp) = Inr c \<Longrightarrow> 1 \<le> c \<and> c \<le> n"
  by (induction B n inp rule: get_choice.induct) (auto split: option.splits if_splits)

lemma set_unique: "set (unique xs) = set xs"
  by (simp add: unique_def)

lemma distinct_unique: "distinct (unique xs)"
  by (simp add: unique_def)

lemma unique_ids_Inr:
  assumes "unique_ids B df = Inr ids" and "sorted_rearranges B"
  shows "''id'' \<in> set (columns df) \<and> set ids = (\<lambda>r. r ''id'') ` set (rows df) \<and> distinct ids"
proof -
  let ?xs = "unique (map (\<lambda>r. r ''id'') (rows df))"
  from assms(1) have c: "''id'' \<in> set (columns df)" and s: "py_sorted B ?xs = Some ids"
    by (auto simp: unique_ids_def split: if_splits option.splits)
  from s assms(2) have l: "length ids = length ?xs" and e: "set ids = set ?xs"
    by (auto simp: sorted_rearranges_def)
  have "card (set ids) = length ids"
    using l e distinct_card [OF distinct_unique [of "map (\<lambda>r. r ''id'') (rows df)"]] by simp
  then have "distinct ids"
    by (rule card_distinct)
  with c e show ?thesis
    by (simp add: set_unique)
qed

lemma filter_id_present:
  assumes "i \<in> (\<lambda>r. r ''id'') ` set (rows df)" and "i \<noteq> NaN"
  shows "filter_id df i \<noteq> []"
  using assms by (auto simp: filter_id_def cell_eq_def filter_empty_conv)

lemma filter_id_NaN: "filter_id df NaN = []"
  by (simp add: filter_id_def cell_eq_def)

lemma render_act_template_not_no_data: "render_act_template B t df \<noteq> Failed NoDataForId"
  by (simp add: render_act_template_def Let_def split: sum.splits prod.splits option.splits)

lemma render_certificate_template_not_failed: "render_certificate_template B t r \<noteq> Failed f"
  by (simp add: render_certificate_template_def split: option.splits)

lemma render_template_has_data:
  assumes "filter_id df i \<noteq> []"
  shows "render_template B tn t df i \<noteq> Failed NoDataForId"
  using assms
  by (simp add: render_template_def Let_def render_act_template_not_no_data
        render_certificate_template_not_failed)

lemma rendered_batch_loop:
  "set (rendered (batch_loop B E tn t cn df ids st)) \<subseteq> set (rendered st) \<union> set ids"
proof (induction ids arbitrary: st)
  case Nil
  show ?case by simp
next
  case (Cons i ids)
  show ?case
  proof (cases "render_template B tn t df i")
    case (Html h)
    obtain ok fs where g: "generate_pdf E h (output_path (output_filename B tn cn i)) (out_files st) = (ok, fs)"
      by (cases "generate_pdf E h (output_path (output_filename B tn cn i)) (out_files st)")
    show ?thesis
      using Html g
        Cons.IH [of "st\<lparr>rendered := rendered st @ [i], out_files := fs,
                      created_files := created_files st @ [output_filename B tn cn i]\<rparr>"]
        Cons.IH [of "st\<lparr>rendered := rendered st @ [i], out_files := fs,
                      errors := errors st @ [''ID '' @ py_str B i]\<rparr>"]
      by (cases ok) auto
  next
    case (Failed f)
    then show ?thesis
      using Cons.IH [of "st\<lparr>rendered := rendered st @ [i],
                      errors := errors st @ [''ID '' @ py_str B i]\<rparr>"]
      by auto
  next
    case (Raised e)
    then show ?thesis by auto
  qed
qed

lemma rendered_batch_mode:
  "set (rendered (batch_mode B E tn t cn df ids fs)) \<subseteq> set ids"
  using rendered_batch_loop [of B E tn t cn df ids
      "\<lparr>outcome = None, out_files = fs, created_files = [], errors = [],
        summary_printed = False, rendered = []\<rparr>"]
  by (simp add: batch_mode_def Let_def)

lemma rendered_single_mode:
  "set (rendered (single_mode B E tn t cn df ids inp fs)) \<subseteq> set ids"
proof (cases "fst (get_choice B (length ids) inp)")
  case (Inl e)
  then show ?thesis by (simp add: single_mode_def)
next
  case (Inr c)
  from get_choice_range [OF Inr] have "c - 1 < length ids"
    by arith
  then have "ids ! (c - 1) \<in> set ids"
    by simp
  then show ?thesis
    using Inr
    by (cases "render_template B tn t df (ids ! (c - 1))")
       (simp_all add: single_mode_def Let_def split: prod.splits)
qed

lemma rendered_main:
  assumes "i \<in> set (rendered (main B E w))"
  shows "\<exists>s ids. select_inputs B w = Inr s \<and> unique_ids B (sel_data_df s) = Inr ids \<and> i \<in> set ids"
proof (cases "select_inputs B w")
  case (Inl r)
  with assms show ?thesis by (simp add: main_def stopped_def)
next
  case (Inr s)
  show ?thesis
  proof (cases "unique_ids B (sel_data_df s)")
    case (Inl e)
    with Inr assms show ?thesis by (simp add: main_def stopped_def)
  next
    case u: (Inr ids)
    have "i \<in> set ids"
      using assms Inr u rendered_single_mode rendered_batch_mode
      by (fastforce simp: main_def split: if_splits)
    with Inr u show ?thesis by simp
  qed
qed

text \<open>
  C10, as amended. In every run of \<open>main\<close>, every identifier passed to
  \<open>render_template\<close> is one of the sorted distinct values of the id column of the
  chosen table. For each such identifier other than the missing value the filtered
  group is not empty and the render does not fail with \<open>NoDataForId\<close>; for the
  missing value, which compares unequal to itself, the group is empty and the render
  fails with \<open>NoDataForId\<close>.
\<close>

theorem rendered_ids_from_table:
  assumes "sorted_rearranges B"
  shows "\<forall>i \<in> set (rendered (main B E w)).
           \<exists>s ids. select_inputs B w = Inr s \<and> unique_ids B (sel_data_df s) = Inr ids
             \<and> i \<in> set ids
             \<and> i \<in> (\<lambda>r. r ''id'') ` set (rows (sel_data_df s))
             \<and> (i \<noteq> NaN \<longrightarrow>
                  filter_id (sel_data_df s) i \<noteq> []
                  \<and> render_template B (sel_template_stem s) (sel_template_html s)
                       (sel_data_df s) i \<noteq> Failed NoDataForId)
             \<and> (i = NaN \<longrightarrow>
                  filter_id (sel_data_df s) i = []
                  \<and> render_template B (sel_template_stem s) (sel_template_html s)
                       (sel_data_df s) i = Failed NoDataForId)"
proof
  fix i
  assume "i \<in> set (rendered (main B E w))"
  from rendered_main [OF this] obtain s ids
    where s: "select_inputs B w = Inr s" and u: "unique_ids B (sel_data_df s) = Inr ids"
      and i: "i \<in> set ids"
    by blast
  from unique_ids_Inr [OF u assms] i
  have c: "''id'' \<in> set (columns (sel_data_df s))"
    and m: "i \<in> (\<lambda>r. r ''id'') ` set (rows (sel_data_df s))"
    by auto
  have p: "i \<noteq> NaN \<longrightarrow> filter_id (sel_data_df s) i \<noteq> []
             \<and> render_template B (sel_template_stem s) (sel_template_html s)
                  (sel_data_df s) i \<noteq> Failed NoDataForId"
    using filter_id_present [OF m] render_template_has_data by blast
  have n: "i = NaN \<longrightarrow> filter_id (sel_data_df s) i = []
             \<and> render_template B (sel_template_stem s) (sel_template_html s)
                  (sel_data_df s) i = Failed NoDataForId"
    using c by (simp add: filter_id_NaN render_template_no_data)
  from s u i m p n
  show "\<exists>s ids. select_inputs B w = Inr s \<and> unique_ids B (sel_data_df s) = Inr ids
             \<and> i \<in> set ids
             \<and> i \<in> (\<lambda>r. r ''id'') ` set (rows (sel_data_df s))
             \<and> (i \<noteq> NaN \<longrightarrow>
                  filter_id (sel_data_df s) i \<noteq> []
                  \<and> render_template B (sel_template_stem s) (sel_template_html s)
                       (sel_data_df s) i \<noteq> Failed NoDataForId)
             \<and> (i = NaN \<longrightarrow>
                  filter_id (sel_data_df s) i = []
                  \<and> render_template B (sel_template_stem s) (sel_template_html s)
                       (sel_data_df s) i = Failed NoDataForId)"
    by blast
qed


lemma example_sorted_rearranges: "sorted_rearranges example_builtins"
  by (simp add: sorted_rearranges_def example_builtins_def)

theorem rendered_ids_from_table_witness:
  "sorted_rearranges example_builtins
   \<and> rendered (main example_builtins example_emitter (example_world example_certificates)) =
        [Val ''1'', Val ''2'']
   \<and> Val ''2'' \<in> (\<lambda>r. r ''id'') ` set (rows example_certificates)
   \<and> filter_id example_certificates (Val ''2'') \<noteq> []
   \<and> render_template example_builtins ''certificate'' ''$student_name'' example_certificates
        (Val ''2'') \<noteq> Failed NoDataForId"
proof -
  let ?w = "example_world example_certificates"
  let ?s = "\<lparr>sel_template_stem = ''certificate'', sel_template_html = ''$student_name'',
             sel_csv_stem = ''students'', sel_data_df = example_certificates, sel_mode = 2,
             sel_input = []\<rparr>"
  have r: "rendered (main example_builtins example_emitter ?w) = [Val ''1'', Val ''2'']"
    by (simp add: run_defs example_defs Let_def)
  have s: "select_inputs example_builtins ?w = Inr ?s"
    by (simp add: select_inputs_def example_world_def example_builtins_def read_nat_def)
  have "Val ''2'' \<in> set (rendered (main example_builtins example_emitter ?w))"
    by (simp only: r) simp
  with rendered_ids_from_table [OF example_sorted_rearranges, of example_emitter ?w] s
  have "Val ''2'' \<in> (\<lambda>r. r ''id'') ` set (rows example_certificates)
   \<and> filter_id example_certificates (Val ''2'') \<noteq> []
   \<and> render_template example_builtins ''certificate'' ''$student_name'' example_certificates
        (Val ''2'') \<noteq> Failed NoDataForId"
    by fastforce
  with r example_sorted_rearranges show ?thesis
    by blast
qed

text \<open>
  C10 as stated fails: on a table with a row whose id field is empty, batch mode
  passes the missing value to the renderer, the filtered group is empty and the failure
  \<open>NoDataForId\<close> is reached from the controller.
\<close>

theorem rendered_ids_counterexample:
  "rendered (main example_builtins example_emitter (example_world example_missing_id)) =
     [NaN, Val ''1'', Val ''2'']
   \<and> errors (main example_builtins example_emitter (example_world example_missing_id)) =
     [''ID nan'', ''ID 2'']
   \<and> NaN \<in> (\<lambda>r. r ''id'') ` set (rows example_missing_id)
   \<and> filter_id example_missing_id NaN = []
   \<and> render_template example_builtins ''certificate'' ''$student_name'' example_missing_id NaN =
     Failed NoDataForId"
  by (simp add: run_defs example_defs Let_def)

subsection \<open>The batch loop\<close>











lemma render_template_columns:
  assumes "''id'' \<in> set (columns df)" and "set (required_fields tn) \<subseteq> set (columns df)"
  shows "render_template B tn t df i \<noteq> Raised e"
    and "filter_id df i \<noteq> [] \<Longrightarrow> tn = ''act'' \<or> tn = ''certificate'' \<Longrightarrow>
           \<exists>h. render_template B tn t df i = Html h"
proof -
  let ?g = "df\<lparr>rows := filter_id df i\<rparr>"
  have act: "render_template B tn t df i \<noteq> Raised e
             \<and> (\<exists>h. render_template B tn t df i = Html h)"
    if "tn = ''act''" "filter_id df i \<noteq> []"
  proof -
    from that assms have "rows ?g \<noteq> []" "set act_row_fields \<subseteq> set (columns ?g)"
      "set act_header_fields \<subseteq> set (columns ?g)"
      by (simp_all add: required_fields_def)
    from render_act_template_closed [OF this, of B t] that assms(1)
    show ?thesis
      by (simp add: render_template_def)
  qed
  have cert: "render_template B tn t df i \<noteq> Raised e
             \<and> (\<exists>h. render_template B tn t df i = Html h)"
    if "tn = ''certificate''" "filter_id df i \<noteq> []"
  proof -
    from that assms have "set certificate_fields \<subseteq> set (fst (columns ?g, rows ?g ! 0))"
      by (simp add: required_fields_def)
    from render_certificate_template_closed [OF this, of B t] that assms(1)
    show ?thesis
      by (simp add: render_template_def)
  qed
  show "render_template B tn t df i \<noteq> Raised e"
  proof (cases "filter_id df i = []")
    case True
    with assms(1) show ?thesis by (simp add: render_template_def)
  next
    case False
    show ?thesis
    proof (cases "tn = ''act'' \<or> tn = ''certificate''")
      case True
      with act cert False show ?thesis by blast
    next
      case False
      with assms(1) show ?thesis by (simp add: render_template_unknown)
    qed
  qed
  show "\<exists>h. render_template B tn t df i = Html h"
    if "filter_id df i \<noteq> []" "tn = ''act'' \<or> tn = ''certificate''"
    using that act cert by blast
qed





subsection \<open>Missing fields\<close>

lemma missing_attr_not_subset:
  "\<not> set names \<subseteq> set cols \<Longrightarrow> \<exists>n. missing_attr cols names = Some n"
  using missing_attr_None [of cols names] by (cases "missing_attr cols names") auto

lemma act_loop_missing:
  assumes "missing_attr cols act_row_fields = Some n" and "rs \<noteq> []"
  shows "act_loop B cols rs idx acc tot = Inl (AttributeError n)"
  using assms by (cases rs) simp_all

lemma render_act_template_missing:
  assumes "rows df \<noteq> []"
    and "\<not> set (act_row_fields @ act_header_fields) \<subseteq> set (columns df)"
  shows "\<exists>n. n \<in> set (act_row_fields @ act_header_fields) \<and> n \<notin> set (columns df)
           \<and> render_act_template B t df = Raised (AttributeError n)"
proof (cases "set act_row_fields \<subseteq> set (columns df)")
  case True
  with assms(2) have "\<not> set act_header_fields \<subseteq> set (columns df)"
    by simp
  then obtain n where n: "missing_attr (columns df) act_header_fields = Some n"
    using missing_attr_not_subset by blast
  have "render_act_template B t df = Raised (AttributeError n)"
    using assms(1) n act_loop_rows [OF True, of B "rows df" 1 "[]" "py_zero B"]
    by (simp add: render_act_template_def)
  with missing_attr_Some [OF n] show ?thesis
    by auto
next
  case False
  then obtain n where n: "missing_attr (columns df) act_row_fields = Some n"
    using missing_attr_not_subset by blast
  have "render_act_template B t df = Raised (AttributeError n)"
    using assms(1) act_loop_missing [OF n assms(1), of B 1 "[]" "py_zero B"]
    by (simp add: render_act_template_def)
  with missing_attr_Some [OF n] show ?thesis
    by auto
qed

lemma render_certificate_template_missing:
  assumes "\<not> set certificate_fields \<subseteq> set (fst data_row)"
  shows "\<exists>n. n \<in> set certificate_fields \<and> n \<notin> set (fst data_row)
           \<and> render_certificate_template B t data_row = Raised (AttributeError n)"
proof -
  obtain n where n: "missing_attr (fst data_row) certificate_fields = Some n"
    using assms missing_attr_not_subset by blast
  have "render_certificate_template B t data_row = Raised (AttributeError n)"
    using n by (simp add: render_certificate_template_def)
  with missing_attr_Some [OF n] show ?thesis
    by auto
qed

lemma render_template_strategy:
  assumes "''id'' \<in> set (columns df)" and "filter_id df i \<noteq> []"
  shows "tn = ''act'' \<Longrightarrow>
           render_template B tn t df i = render_act_template B t (df\<lparr>rows := filter_id df i\<rparr>)"
    and "tn = ''certificate'' \<Longrightarrow>
           render_template B tn t df i =
             render_certificate_template B t (columns df, filter_id df i ! 0)"
  using assms by (simp_all add: render_template_def)

lemma render_template_missing:
  assumes "''id'' \<in> set (columns df)" and "filter_id df i \<noteq> []"
    and "tn = ''act'' \<or> tn = ''certificate''"
    and "\<not> set (required_fields tn) \<subseteq> set (columns df)"
  shows "\<exists>n. n \<in> set (required_fields tn) \<and> n \<notin> set (columns df)
           \<and> render_template B tn t df i = Raised (AttributeError n)"
proof (cases "tn = ''act''")
  case True
  with assms(4) have "\<not> set (act_row_fields @ act_header_fields)
      \<subseteq> set (columns (df\<lparr>rows := filter_id df i\<rparr>))"
    by (simp add: required_fields_def)
  from render_act_template_missing [OF _ this, of B t] assms(2)
  show ?thesis
    using True by (simp add: render_template_strategy(1) [OF assms(1,2)] required_fields_def)
next
  case False
  with assms(3) have c: "tn = ''certificate''"
    by simp
  with assms(4) have "\<not> set certificate_fields \<subseteq> set (fst (columns df, filter_id df i ! 0))"
    by (simp add: required_fields_def)
  from render_certificate_template_missing [OF this, of B t]
  show ?thesis
    using c by (simp add: render_template_strategy(2) [OF assms(1,2)] required_fields_def)
qed

text \<open>
  C4, as amended. A strategy is handed the filtered group only when it has at least
  one row. When the columns of the table include every field the strategy reads, the
  render returns a document, whatever the cells hold. When a field is not a column, the
  render raises \<open>AttributeError\<close> for it; the batch loop does not catch it and is left
  at that identifier, before any later one is processed, and the guard ends the process
  with exit code 1.
\<close>

theorem missing_field_aborts:
  assumes "''id'' \<in> set (columns df)" and "filter_id df i \<noteq> []"
    and "tn = ''act'' \<or> tn = ''certificate''"
  shows "rows (df\<lparr>rows := filter_id df i\<rparr>) \<noteq> []
       \<and> (tn = ''act'' \<longrightarrow>
            render_template B tn t df i =
              render_act_template B t (df\<lparr>rows := filter_id df i\<rparr>))
       \<and> (tn = ''certificate'' \<longrightarrow>
            render_template B tn t df i =
              render_certificate_template B t (columns df, filter_id df i ! 0))
       \<and> (set (required_fields tn) \<subseteq> set (columns df) \<longrightarrow>
            (\<exists>h. render_template B tn t df i = Html h))
       \<and> (\<not> set (required_fields tn) \<subseteq> set (columns df) \<longrightarrow>
            (\<exists>n. n \<in> set (required_fields tn) \<and> n \<notin> set (columns df)
               \<and> render_template B tn t df i = Raised (AttributeError n)
               \<and> batch_loop B E tn t cn df (i # ids) st =
                   st\<lparr>rendered := rendered st @ [i], outcome := Some (AttributeError n)\<rparr>
               \<and> main_guard (Some (AttributeError n)) = 1))"
proof (intro conjI impI)
  show "rows (df\<lparr>rows := filter_id df i\<rparr>) \<noteq> []"
    using assms(2) by simp
  show "render_template B tn t df i = render_act_template B t (df\<lparr>rows := filter_id df i\<rparr>)"
    if "tn = ''act''"
    using that by (rule render_template_strategy(1) [OF assms(1,2)])
  show "render_template B tn t df i =
          render_certificate_template B t (columns df, filter_id df i ! 0)"
    if "tn = ''certificate''"
    using that by (rule render_template_strategy(2) [OF assms(1,2)])
  show "\<exists>h. render_template B tn t df i = Html h"
    if "set (required_fields tn) \<subseteq> set (columns df)"
    using render_template_columns(2) [OF assms(1) that assms(2,3)] .
  show "\<exists>n. n \<in> set (required_fields tn) \<and> n \<notin> set (columns df)
               \<and> render_template B tn t df i = Raised (AttributeError n)
               \<and> batch_loop B E tn t cn df (i # ids) st =
                   st\<lparr>rendered := rendered st @ [i], outcome := Some (AttributeError n)\<rparr>
               \<and> main_guard (Some (AttributeError n)) = 1"
    if "\<not> set (required_fields tn) \<subseteq> set (columns df)"
  proof -
    from render_template_missing [OF assms that, of B t] obtain n
      where n: "n \<in> set (required_fields tn)" "n \<notin> set (columns df)"
        and r: "render_template B tn t df i = Raised (AttributeError n)"
      by blast
    from n r batch_loop_raised [OF r, of E cn ids st] show ?thesis
      by auto
  qed
qed


theorem missing_field_aborts_witness:
  "''id'' \<in> set (columns example_certificates)
   \<and> filter_id example_certificates (Val ''1'') \<noteq> []
   \<and> set (required_fields ''certificate'') \<subseteq> set (columns example_certificates)
   \<and> render_template example_builtins ''certificate'' ''$student_name'' example_certificates
        (Val ''1'') = Html ''Ann''
   \<and> ''id'' \<in> set (columns example_ids_only)
   \<and> filter_id example_ids_only (Val ''1'') \<noteq> []
   \<and> \<not> set (required_fields ''certificate'') \<subseteq> set (columns example_ids_only)
   \<and> render_template example_builtins ''certificate'' ''$student_name'' example_ids_only
        (Val ''1'') = Raised (AttributeError ''student_name'')
   \<and> main_guard (Some (AttributeError ''student_name'')) = 1"
proof -
  have a: "''id'' \<in> set (columns example_certificates)"
    and b: "filter_id example_certificates (Val ''1'') \<noteq> []"
    and c: "set (required_fields ''certificate'') \<subseteq> set (columns example_certificates)"
    and d: "''id'' \<in> set (columns example_ids_only)"
    and e: "filter_id example_ids_only (Val ''1'') \<noteq> []"
    and f: "\<not> set (required_fields ''certificate'') \<subseteq> set (columns example_ids_only)"
    by (simp_all add: required_fields_def filter_id_def cell_eq_def example_defs)
  have k: "''certificate'' = ''act'' \<or> ''certificate'' = ''certificate''"
    by simp
  have v1: "render_certificate_template example_builtins ''$student_name''
              (columns example_certificates, filter_id example_certificates (Val ''1'') ! 0) =
            Html ''Ann''"
    by (simp add: render_certificate_template_def missing_attr_def filter_id_def cell_eq_def
          example_defs)
  from missing_field_aborts [OF a b k, of example_builtins "''$student_name''"] v1
  have r1: "render_template example_builtins ''certificate'' ''$student_name''
              example_certificates (Val ''1'') = Html ''Ann''"
    by simp
  have v2: "missing_attr (columns example_ids_only) certificate_fields = Some ''student_name''"
    by (simp add: missing_attr_def example_defs)
  from missing_field_aborts [OF d e k, of example_builtins "''$student_name''"] v2
  have r2: "render_template example_builtins ''certificate'' ''$student_name'' example_ids_only
              (Val ''1'') = Raised (AttributeError ''student_name'')"
    by (simp add: render_certificate_template_def)
  from a b c d e f r1 r2 show ?thesis
    by simp
qed

text \<open>
  C4 as stated fails: with the column \<open>contractor\<close> missing, the render of the first
  identifier raises and ends the batch; the group of the second identifier is never
  rendered, and no failure is recorded.
\<close>

theorem missing_field_counterexample:
  "''contractor'' \<in> set (required_fields ''act'')
   \<and> ''contractor'' \<notin> set (columns example_two_acts)
   \<and> filter_id example_two_acts (Val ''2'') \<noteq> []
   \<and> batch_mode example_builtins example_emitter ''act'' ''$client'' ''acts'' example_two_acts
        [Val ''1'', Val ''2''] no_files =
      \<lparr>outcome = Some (AttributeError ''contractor''), out_files = no_files,
       created_files = [], errors = [], summary_printed = False, rendered = [Val ''1'']\<rparr>"
  by (simp add: required_fields_def batch_mode_def render_template_def filter_id_def cell_eq_def
        render_act_template_def missing_attr_def add_total_def example_defs Let_def)

end
